theory Spec2Isabelle
  imports Main "HOL-Library.AList"
begin

section \<open>JavaScript values and objects\<close>

text \<open>
  A JavaScript object is modelled as an association list of its own properties, in the
  enumeration order of its keys (what \<^verbatim>\<open>Object.entries\<close> yields). The spread
  \<^verbatim>\<open>{...obj, [k]: v}\<close> is \<^const>\<open>AList.update\<close> (an existing key keeps its position,
  a new key goes last) and \<^verbatim>\<open>delete obj[k]\<close> is \<^const>\<open>AList.delete\<close>. The keys the
  store adds are generated ids (\<^verbatim>\<open>task-id-...\<close>, \<^verbatim>\<open>column-id-...\<close>) or names of
  inherited members, never array-index-like, so a new key is enumerated last.

  A property read \<^verbatim>\<open>obj[k]\<close> finds the own property, or else a member inherited from
  \<^verbatim>\<open>Object.prototype\<close>: \<open>objGet\<close> below. \<^const>\<open>map_of\<close> is used where the key is
  known to be an own one.

  Untyped data (the payload of an import) is a \<open>jsval\<close>. A character of a \<open>string\<close> stands
  for one UTF-16 code unit, so \<^const>\<open>length\<close> is JavaScript's \<^verbatim>\<open>.length\<close>.
\<close>

datatype jsval =
    JUndefined
  | JNull
  | JBool bool
  | JNum int
  | JStr string
  | JArr "jsval list"
  | JObj "(string \<times> jsval) list"

text \<open>
  The members every plain object inherits from an unmodified \<^verbatim>\<open>Object.prototype\<close>. All
  are functions but \<^verbatim>\<open>__proto__\<close>, which reads as the prototype object; each is truthy
  and has none of the properties the store reads from a task or a column.
\<close>

definition inheritedNames :: "string list" where
  "inheritedNames = [''constructor'', ''hasOwnProperty'', ''isPrototypeOf'',
     ''propertyIsEnumerable'', ''toLocaleString'', ''toString'', ''valueOf'', ''__proto__'',
     ''__defineGetter__'', ''__defineSetter__'', ''__lookupGetter__'', ''__lookupSetter__'']"

datatype 'v lookup = Own 'v | Inherited | Undefined

definition objGet :: "(string \<times> 'v) list \<Rightarrow> string \<Rightarrow> 'v lookup" where
  "objGet obj k =
     (case map_of obj k of
        Some v \<Rightarrow> Own v
      | None \<Rightarrow> if k \<in> set inheritedNames then Inherited else Undefined)"

text \<open>\<^verbatim>\<open>!!v\<close>: the values JavaScript treats as true in a condition.\<close>

fun truthy :: "jsval \<Rightarrow> bool" where
  "truthy JUndefined = False"
| "truthy JNull = False"
| "truthy (JBool b) = b"
| "truthy (JNum n) = (n \<noteq> 0)"
| "truthy (JStr s) = (s \<noteq> [])"
| "truthy (JArr xs) = True"
| "truthy (JObj kvs) = True"

text \<open>
  Every \<^verbatim>\<open>throw new Error(...)\<close> of the source is a constructor carrying what the message
  interpolates. \<open>TypeError\<close> is the engine's own exception for a property read on
  \<^verbatim>\<open>null\<close> or \<^verbatim>\<open>undefined\<close>.
\<close>

datatype error =
    ColumnNotFound string          \<comment> \<open>\<^verbatim>\<open>Column ${columnId} not found\<close>\<close>
  | TaskNotFound string            \<comment> \<open>\<^verbatim>\<open>Task ${taskId} not found\<close>\<close>
  | TaskNotInAnyColumn string      \<comment> \<open>\<^verbatim>\<open>Task ${taskId} not found in any column\<close>\<close>
  | TargetColumnNotFound string    \<comment> \<open>\<^verbatim>\<open>Target column ${targetColumnId} not found\<close>\<close>
  | TaskNotInColumn                \<comment> \<open>\<^verbatim>\<open>Task not found in column\<close>\<close>
  | Invalid "string list"          \<comment> \<open>\<^verbatim>\<open>validation.errors.join(', ')\<close>\<close>
  | InvalidTaskData "string list"  \<comment> \<open>\<^verbatim>\<open>Invalid task data: ...\<close>\<close>
  | InvalidColumnData "string list" \<comment> \<open>\<^verbatim>\<open>Invalid column data: ...\<close>\<close>
  | InvalidImport                  \<comment> \<open>\<^verbatim>\<open>Invalid import data structure\<close>\<close>
  | TypeError string               \<comment> \<open>property read on null or undefined\<close>

text \<open>
  \<^verbatim>\<open>v[k]\<close> for the property names the code reads from untyped data (\<^verbatim>\<open>data\<close>,
  \<^verbatim>\<open>tasks\<close>, \<^verbatim>\<open>columns\<close>, \<^verbatim>\<open>version\<close>, \<^verbatim>\<open>exportedAt\<close>): none of them is a
  built-in property of a string, number, boolean or array, so those yield
  \<^verbatim>\<open>undefined\<close>; \<^verbatim>\<open>null\<close> and \<^verbatim>\<open>undefined\<close> throw.
\<close>

fun getProp :: "jsval \<Rightarrow> string \<Rightarrow> error + jsval" where
  "getProp JUndefined k = Inl (TypeError k)"
| "getProp JNull k = Inl (TypeError k)"
| "getProp (JObj kvs) k = Inr (case map_of kvs k of None \<Rightarrow> JUndefined | Some v \<Rightarrow> v)"
| "getProp v k = Inr JUndefined"

text \<open>The outside world of one call: the clock, the random source, the date parser.\<close>

record env =
  now :: string                          \<comment> \<open>\<^verbatim>\<open>new Date().toISOString()\<close>\<close>
  nowMs :: int                           \<comment> \<open>\<^verbatim>\<open>new Date().getTime()\<close>\<close>
  timestamp36 :: string                  \<comment> \<open>\<^verbatim>\<open>Date.now().toString(36)\<close>\<close>
  randomStr :: string                    \<comment> \<open>\<^verbatim>\<open>Math.random().toString(36).substr(2, 9)\<close>\<close>
  Date_parse :: "string \<Rightarrow> int option"   \<comment> \<open>\<^verbatim>\<open>new Date(s).getTime()\<close>, \<open>None\<close> for NaN\<close>
  tzOffset :: int                        \<comment> \<open>local time minus UTC, in milliseconds\<close>

section \<open>utils/idGenerator.js and utils/constants.js\<close>

definition generateId :: "env \<Rightarrow> string" where
  "generateId e = ''id-'' @ timestamp36 e @ ''-'' @ randomStr e"

definition generateTaskId :: "env \<Rightarrow> string" where
  "generateTaskId e = ''task-'' @ generateId e"

definition generateColumnId :: "env \<Rightarrow> string" where
  "generateColumnId e = ''column-'' @ generateId e"

definition PRIORITY_LEVELS :: "string list" where
  "PRIORITY_LEVELS = [''low'', ''medium'', ''high'']"

definition COLUMN_COLORS :: "string list" where
  "COLUMN_COLORS = [''bg-gray-100'', ''bg-blue-50'', ''bg-green-50'', ''bg-yellow-50'',
     ''bg-purple-50'', ''bg-pink-50'', ''bg-indigo-50'']"

text \<open>\<^verbatim>\<open>s.trim()\<close>, on the white space among the modelled code units.\<close>

definition isWhiteSpace :: "char \<Rightarrow> bool" where
  "isWhiteSpace c = (c \<in> set [CHR 0x09, CHR 0x0A, CHR 0x0B, CHR 0x0C, CHR 0x0D, CHR 0x20, CHR 0xA0])"

definition trim :: "string \<Rightarrow> string" where
  "trim s = rev (dropWhile isWhiteSpace (rev (dropWhile isWhiteSpace s)))"

text \<open>\<^verbatim>\<open>a || b\<close> on strings: the empty string is the only falsy one.\<close>

definition orElse :: "string \<Rightarrow> string \<Rightarrow> string" where
  "orElse a b = (if a = [] then b else a)"

section \<open>types/task.js\<close>

record task =
  task_id :: string
  task_title :: string
  description :: string
  priority :: string
  assignee :: string
  dueDate :: string
  task_createdAt :: string
  task_updatedAt :: string

record validation =
  isValid :: bool
  errors :: "string list"

text \<open>\<^verbatim>\<open>TaskType.validate\<close>: the checks in the order of the source, each pushing its message.\<close>

definition TaskType_validate :: "env \<Rightarrow> task \<Rightarrow> validation" where
  "TaskType_validate e this =
     (let errs =
            (if task_title this = [] \<or> length (trim (task_title this)) = 0
             then [''Title is required''] else [])
          @ (if task_title this \<noteq> [] \<and> length (task_title this) > 100
             then [''Title must be less than 100 characters''] else [])
          @ (if description this \<noteq> [] \<and> length (description this) > 500
             then [''Description must be less than 500 characters''] else [])
          @ (if priority this \<noteq> [] \<and> priority this \<notin> set PRIORITY_LEVELS
             then [''Invalid priority level''] else [])
          @ (if assignee this \<noteq> [] \<and> length (assignee this) > 50
             then [''Assignee name must be less than 50 characters''] else [])
          @ (if dueDate this \<noteq> [] \<and> Date_parse e (dueDate this) = None
             then [''Invalid due date format''] else [])
      in \<lparr>isValid = (length errs = 0), errors = errs\<rparr>)"

text \<open>
  \<^verbatim>\<open>TaskType.fromObject(data)\<close> is \<^verbatim>\<open>new TaskType(data)\<close>: a stored task gives its
  fields; a value that has none of them (an inherited member, \<^verbatim>\<open>undefined\<close>) gives the
  constructor's defaults.
\<close>

definition TaskType_fromObject :: "env \<Rightarrow> task lookup \<Rightarrow> task" where
  "TaskType_fromObject e data =
     (case data of
        Own t \<Rightarrow> t
      | _ \<Rightarrow> \<lparr>task_id = [], task_title = [], description = [], priority = ''medium'',
               assignee = [], dueDate = [], task_createdAt = now e, task_updatedAt = now e\<rparr>)"

text \<open>
  The argument of \<^verbatim>\<open>TaskType.update\<close>: an object that may set any field. A field the
  object does not have is \<open>None\<close>.
\<close>

record task_patch =
  p_task_id :: "string option"
  p_task_title :: "string option"
  p_description :: "string option"
  p_priority :: "string option"
  p_assignee :: "string option"
  p_dueDate :: "string option"
  p_task_createdAt :: "string option"

definition patched :: "'a option \<Rightarrow> 'a \<Rightarrow> 'a" where
  "patched p old = (case p of None \<Rightarrow> old | Some v \<Rightarrow> v)"

definition TaskType_update :: "env \<Rightarrow> task \<Rightarrow> task_patch \<Rightarrow> error + task" where
  "TaskType_update e this updates =
     (let updatedTask =
            \<lparr>task_id = patched (p_task_id updates) (task_id this),
             task_title = patched (p_task_title updates) (task_title this),
             description = patched (p_description updates) (description this),
             priority = patched (p_priority updates) (priority this),
             assignee = patched (p_assignee updates) (assignee this),
             dueDate = patched (p_dueDate updates) (dueDate this),
             task_createdAt = patched (p_task_createdAt updates) (task_createdAt this),
             task_updatedAt = now e\<rparr>;
          validation = TaskType_validate e updatedTask
      in if \<not> isValid validation then Inl (InvalidTaskData (errors validation))
         else Inr updatedTask)"

text \<open>
  \<^verbatim>\<open>setHours(0, 0, 0, 0)\<close>: the local midnight at or before an instant, for a zone with a
  fixed offset.
\<close>

definition setHours0 :: "env \<Rightarrow> int \<Rightarrow> int" where
  "setHours0 e t = t - (t + tzOffset e) mod 86400000"

definition isOverdue :: "env \<Rightarrow> task \<Rightarrow> bool" where
  "isOverdue e this =
     (if dueDate this = [] then False
      else case Date_parse e (dueDate this) of
             None \<Rightarrow> False
           | Some d \<Rightarrow> setHours0 e d < setHours0 e (nowMs e))"

text \<open>
  The form object handed to \<^verbatim>\<open>TaskFactory.createFromForm\<close>; an absent field is the empty
  string, which \<^verbatim>\<open>||\<close> treats the same way.
\<close>

record task_form =
  f_id :: string
  f_title :: string
  f_description :: string
  f_priority :: string
  f_assignee :: string
  f_dueDate :: string

text \<open>
  \<^verbatim>\<open>createFromForm\<close> passes five fields to the constructor; \<^verbatim>\<open>id\<close>,
  \<^verbatim>\<open>createdAt\<close> and \<^verbatim>\<open>updatedAt\<close> take the constructor's defaults.
\<close>

definition TaskFactory_createFromForm :: "env \<Rightarrow> task_form \<Rightarrow> task" where
  "TaskFactory_createFromForm e formData =
     \<lparr>task_id = '''',
      task_title = orElse (f_title formData) '''',
      description = orElse (f_description formData) '''',
      priority = orElse (f_priority formData) ''medium'',
      assignee = orElse (f_assignee formData) '''',
      dueDate = orElse (f_dueDate formData) '''',
      task_createdAt = now e,
      task_updatedAt = now e\<rparr>"

section \<open>types/column.js\<close>

record column =
  column_id :: string
  column_title :: string
  color :: string
  taskIds :: "string list"
  column_createdAt :: string
  column_updatedAt :: string
  order :: int

definition ColumnType_validate :: "column \<Rightarrow> validation" where
  "ColumnType_validate this =
     (let errs =
            (if column_title this = [] \<or> length (trim (column_title this)) = 0
             then [''Title is required''] else [])
          @ (if column_title this \<noteq> [] \<and> length (column_title this) > 50
             then [''Title must be less than 50 characters''] else [])
          @ (if color this \<noteq> [] \<and> color this \<notin> set COLUMN_COLORS
             then [''Invalid column color''] else [])
          @ (if length (taskIds this) > 100
             then [''Column cannot contain more than 100 tasks''] else [])
      in \<lparr>isValid = (length errs = 0), errors = errs\<rparr>)"

text \<open>\<^verbatim>\<open>ColumnType.fromObject(data)\<close>, as for tasks.\<close>

definition ColumnType_fromObject :: "env \<Rightarrow> column lookup \<Rightarrow> column" where
  "ColumnType_fromObject e data =
     (case data of
        Own c \<Rightarrow> c
      | _ \<Rightarrow> \<lparr>column_id = [], column_title = [], color = ''bg-gray-100'', taskIds = [],
               column_createdAt = now e, column_updatedAt = now e, order = 0\<rparr>)"

record column_patch =
  p_column_id :: "string option"
  p_column_title :: "string option"
  p_color :: "string option"
  p_taskIds :: "string list option"
  p_column_createdAt :: "string option"
  p_order :: "int option"

definition no_patch :: column_patch where
  "no_patch = \<lparr>p_column_id = None, p_column_title = None, p_color = None, p_taskIds = None,
     p_column_createdAt = None, p_order = None\<rparr>"

definition ColumnType_update :: "env \<Rightarrow> column \<Rightarrow> column_patch \<Rightarrow> error + column" where
  "ColumnType_update e this updates =
     (let updatedColumn =
            \<lparr>column_id = patched (p_column_id updates) (column_id this),
             column_title = patched (p_column_title updates) (column_title this),
             color = patched (p_color updates) (color this),
             taskIds = patched (p_taskIds updates) (taskIds this),
             column_createdAt = patched (p_column_createdAt updates) (column_createdAt this),
             column_updatedAt = now e,
             order = patched (p_order updates) (order this)\<rparr>;
          validation = ColumnType_validate updatedColumn
      in if \<not> isValid validation then Inl (InvalidColumnData (errors validation))
         else Inr updatedColumn)"





record column_form =
  cf_id :: string
  cf_title :: string
  cf_color :: string
  cf_order :: int

text \<open>
  \<^verbatim>\<open>ColumnFactory.createFromForm\<close> passes \<^verbatim>\<open>title\<close> and \<^verbatim>\<open>color\<close> to the
  constructor; every other field takes the constructor's default.
\<close>

definition ColumnFactory_createFromForm :: "env \<Rightarrow> column_form \<Rightarrow> column" where
  "ColumnFactory_createFromForm e formData =
     \<lparr>column_id = '''',
      column_title = orElse (cf_title formData) '''',
      color = orElse (cf_color formData) ''bg-gray-100'',
      taskIds = [],
      column_createdAt = now e,
      column_updatedAt = now e,
      order = 0\<rparr>"

section \<open>hooks/useKanban.js\<close>

text \<open>
  The state of the hook. An operation is a function from the current snapshot to an error
  (the exception thrown; the store keeps the snapshot it had) or to the returned value and
  the next snapshot. The functional updater of \<^verbatim>\<open>setBoardData\<close> runs on the current
  snapshot \<open>prevData\<close>. A callback also closes over \<^verbatim>\<open>boardData\<close>, the snapshot of the
  render it was created in, which is older than \<open>prevData\<close> when several calls are issued
  from one render: where the source reads it and the value read matters, it is a second
  argument. One call reads the clock once.
\<close>

record board =
  tasks :: "(string \<times> task) list"
  columns :: "(string \<times> column) list"
  columnOrder :: "string list"
  lastModified :: string

text \<open>
  \<^verbatim>\<open>updateBoardData\<close>: whatever the updater returns is stored with a new
  \<^verbatim>\<open>lastModified\<close>.
\<close>

definition updateBoardData :: "env \<Rightarrow> board \<Rightarrow> board" where
  "updateBoardData e newData = newData\<lparr>lastModified := now e\<rparr>"

definition addTask :: "env \<Rightarrow> string \<Rightarrow> task_form \<Rightarrow> board \<Rightarrow> error + string \<times> board" where
  "addTask e columnId taskData prevData =
     (let taskId = generateTaskId e;
          task = TaskFactory_createFromForm e (taskData\<lparr>f_id := taskId\<rparr>);
          validation = TaskType_validate e task
      in if \<not> isValid validation then Inl (Invalid (errors validation))
         else (case objGet (columns prevData) columnId of
                 Undefined \<Rightarrow> Inl (ColumnNotFound columnId)
               | Inherited \<Rightarrow> Inl (TypeError ''taskIds'')
               | Own column \<Rightarrow>
                   Inr (taskId,
                        updateBoardData e
                          (prevData\<lparr>tasks := AList.update taskId task (tasks prevData),
                                    columns := AList.update columnId
                                      (column\<lparr>taskIds := taskIds column @ [taskId],
                                              column_updatedAt := now e\<rparr>)
                                      (columns prevData)\<rparr>))))"

definition updateTask :: "env \<Rightarrow> string \<Rightarrow> task_patch \<Rightarrow> board \<Rightarrow> error + board" where
  "updateTask e taskId updates prevData =
     (case objGet (tasks prevData) taskId of
        Undefined \<Rightarrow> Inl (TaskNotFound taskId)
      | existingTask \<Rightarrow>
          (case TaskType_update e (TaskType_fromObject e existingTask) updates of
             Inl err \<Rightarrow> Inl err
           | Inr updatedTask \<Rightarrow>
               Inr (updateBoardData e
                      (prevData\<lparr>tasks := AList.update taskId updatedTask (tasks prevData)\<rparr>))))"

text \<open>
  The loop over \<^verbatim>\<open>Object.entries(prevData.columns)\<close> that stops at the first column whose
  \<^verbatim>\<open>taskIds\<close> includes the task; \<open>None\<close> is the initial \<^verbatim>\<open>null\<close>.
\<close>

fun findSourceColumn :: "string \<Rightarrow> (string \<times> column) list \<Rightarrow> string option" where
  "findSourceColumn taskId [] = None"
| "findSourceColumn taskId ((columnId, column) # rest) =
     (if taskId \<in> set (taskIds column) then Some columnId
      else findSourceColumn taskId rest)"

text \<open>
  \<open>confirmed\<close> is the answer of \<^verbatim>\<open>window.confirm\<close>; the boolean in the result is the
  function's return value. \<^verbatim>\<open>!sourceColumnId\<close> holds for \<^verbatim>\<open>null\<close> and for the empty
  string. The source column id is a key that \<^verbatim>\<open>Object.entries\<close> gave, an own one. An
  inherited member passes \<^verbatim>\<open>if (!column)\<close>; its \<^verbatim>\<open>taskIds\<close> is
  \<^verbatim>\<open>undefined\<close>, and spreading that throws.
\<close>

definition deleteTask :: "env \<Rightarrow> bool \<Rightarrow> string \<Rightarrow> board \<Rightarrow> error + bool \<times> board" where
  "deleteTask e confirmed taskId prevData =
     (if \<not> confirmed then Inr (False, prevData)
      else case findSourceColumn taskId (columns prevData) of
             None \<Rightarrow> Inl (TaskNotInAnyColumn taskId)
           | Some sourceColumnId \<Rightarrow>
               if sourceColumnId = [] then Inl (TaskNotInAnyColumn taskId)
               else (case map_of (columns prevData) sourceColumnId of
                       None \<Rightarrow> Inl (TypeError ''taskIds'')
                     | Some sourceColumn \<Rightarrow>
                         Inr (True,
                              updateBoardData e
                                (prevData\<lparr>tasks := AList.delete taskId (tasks prevData),
                                          columns := AList.update sourceColumnId
                                            (sourceColumn\<lparr>taskIds := filter (\<lambda>i. i \<noteq> taskId) (taskIds sourceColumn),
                                                          column_updatedAt := now e\<rparr>)
                                            (columns prevData)\<rparr>))))"

definition moveTask :: "env \<Rightarrow> string \<Rightarrow> string \<Rightarrow> board \<Rightarrow> error + board" where
  "moveTask e taskId targetColumnId prevData =
     (case findSourceColumn taskId (columns prevData) of
        None \<Rightarrow> Inl (TaskNotFound taskId)
      | Some sourceColumnId \<Rightarrow>
          if sourceColumnId = [] then Inl (TaskNotFound taskId)
          else if sourceColumnId = targetColumnId then Inr (updateBoardData e prevData)
          else (case map_of (columns prevData) sourceColumnId of
                 None \<Rightarrow> Inl (TypeError ''taskIds'')
               | Some sourceColumn \<Rightarrow>
                   (case objGet (columns prevData) targetColumnId of
                      Undefined \<Rightarrow> Inl (TargetColumnNotFound targetColumnId)
                    | Inherited \<Rightarrow> Inl (TypeError ''taskIds'')
                    | Own targetColumn \<Rightarrow>
                        Inr (updateBoardData e
                               (prevData\<lparr>columns :=
                                  AList.update targetColumnId
                                    (targetColumn\<lparr>taskIds := taskIds targetColumn @ [taskId],
                                                  column_updatedAt := now e\<rparr>)
                                    (AList.update sourceColumnId
                                       (sourceColumn\<lparr>taskIds := filter (\<lambda>i. i \<noteq> taskId) (taskIds sourceColumn),
                                                     column_updatedAt := now e\<rparr>)
                                       (columns prevData))\<rparr>)))))"

text \<open>
  \<^verbatim>\<open>addColumn\<close> reads \<^verbatim>\<open>boardData.columnOrder.length\<close> from the render's snapshot and hands
  it to the factory, which drops it: the snapshot of the render has no effect on the result,
  and one argument stands for both.
\<close>

definition addColumn :: "env \<Rightarrow> column_form \<Rightarrow> board \<Rightarrow> error + string \<times> board" where
  "addColumn e columnData boardData =
     (let columnId = generateColumnId e;
          column = ColumnFactory_createFromForm e
                     (columnData\<lparr>cf_id := columnId,
                                 cf_order := int (length (columnOrder boardData))\<rparr>);
          validation = ColumnType_validate column
      in if \<not> isValid validation then Inl (Invalid (errors validation))
         else Inr (columnId,
                   updateBoardData e
                     (boardData\<lparr>columns := AList.update columnId column (columns boardData),
                                columnOrder := columnOrder boardData @ [columnId]\<rparr>)))"

definition updateColumn :: "env \<Rightarrow> string \<Rightarrow> column_patch \<Rightarrow> board \<Rightarrow> error + board" where
  "updateColumn e columnId updates prevData =
     (case objGet (columns prevData) columnId of
        Undefined \<Rightarrow> Inl (ColumnNotFound columnId)
      | existingColumn \<Rightarrow>
          (case ColumnType_update e (ColumnType_fromObject e existingColumn) updates of
             Inl err \<Rightarrow> Inl err
           | Inr updatedColumn \<Rightarrow>
               Inr (updateBoardData e
                      (prevData\<lparr>columns := AList.update columnId updatedColumn (columns prevData)\<rparr>))))"

text \<open>\<^verbatim>\<open>column.taskIds.forEach(taskId => delete newTasks[taskId])\<close>.\<close>

fun deleteAll :: "string list \<Rightarrow> (string \<times> 'v) list \<Rightarrow> (string \<times> 'v) list" where
  "deleteAll [] newTasks = newTasks"
| "deleteAll (taskId # rest) newTasks = deleteAll rest (AList.delete taskId newTasks)"

text \<open>
  \<^verbatim>\<open>deleteColumn\<close> looks the column up in \<open>boardData\<close>, the snapshot of the render, and
  its updater deletes the tasks that column lists from \<open>prevData\<close>. An inherited member
  passes the guard and has no \<^verbatim>\<open>taskIds\<close>: \<^verbatim>\<open>column.taskIds?.forEach\<close> does nothing.
\<close>

definition deleteColumn :: "env \<Rightarrow> bool \<Rightarrow> string \<Rightarrow> board \<Rightarrow> board \<Rightarrow> error + bool \<times> board" where
  "deleteColumn e confirmed columnId boardData prevData =
     (case objGet (columns boardData) columnId of
        Undefined \<Rightarrow> Inl (ColumnNotFound columnId)
      | column \<Rightarrow>
          if \<not> confirmed then Inr (False, prevData)
          else Inr (True,
                    updateBoardData e
                      (prevData\<lparr>tasks := deleteAll (case column of Own c \<Rightarrow> taskIds c | _ \<Rightarrow> [])
                                             (tasks prevData),
                                columns := AList.delete columnId (columns prevData),
                                columnOrder := filter (\<lambda>i. i \<noteq> columnId) (columnOrder prevData)\<rparr>)))"

definition reorderColumns :: "env \<Rightarrow> string list \<Rightarrow> board \<Rightarrow> error + board" where
  "reorderColumns e newColumnOrder prevData =
     Inr (updateBoardData e (prevData\<lparr>columnOrder := newColumnOrder\<rparr>))"

definition emptyBoard :: "string \<Rightarrow> board" where
  "emptyBoard stamp = \<lparr>tasks = [], columns = [], columnOrder = [], lastModified = stamp\<rparr>"

definition clearBoard :: "env \<Rightarrow> bool \<Rightarrow> board \<Rightarrow> board" where
  "clearBoard e confirmed boardData =
     (if confirmed then updateBoardData e (emptyBoard (now e)) else boardData)"



text \<open>
  A value of \<^verbatim>\<open>tasksByPriority\<close>: a count, or the string that \<^verbatim>\<open>+ 1\<close> makes of an
  inherited member read from the accumulator (its text is the engine's).
\<close>

datatype tally = Tally nat | Text

record stats =
  totalTasks :: nat
  totalColumns :: nat
  tasksByPriority :: "(string \<times> tally) list"
  overdueTasks :: nat
  stats_lastModified :: string

text \<open>
  \<^verbatim>\<open>acc[p] = (acc[p] || 0) + 1\<close> on an accumulator that starts as \<^verbatim>\<open>{}\<close>. Assigning a
  string to \<^verbatim>\<open>__proto__\<close> changes nothing.
\<close>

definition countPriority :: "(string \<times> tally) list \<Rightarrow> task \<Rightarrow> (string \<times> tally) list" where
  "countPriority acc task =
     (case objGet acc (priority task) of
        Undefined \<Rightarrow> AList.update (priority task) (Tally 1) acc
      | Own (Tally n) \<Rightarrow> AList.update (priority task) (Tally (n + 1)) acc
      | Own Text \<Rightarrow> AList.update (priority task) Text acc
      | Inherited \<Rightarrow>
          if priority task = ''__proto__'' then acc
          else AList.update (priority task) Text acc)"

text \<open>The predicate of the \<^verbatim>\<open>filter\<close> in \<^verbatim>\<open>getBoardStats\<close>.\<close>

definition statsOverdue :: "env \<Rightarrow> task \<Rightarrow> bool" where
  "statsOverdue e task =
     (if dueDate task = [] then False
      else case Date_parse e (dueDate task) of
             None \<Rightarrow> False
           | Some d \<Rightarrow> d < nowMs e)"

definition getBoardStats :: "env \<Rightarrow> board \<Rightarrow> stats" where
  "getBoardStats e boardData =
     \<lparr>totalTasks = length (map fst (tasks boardData)),
      totalColumns = length (map fst (columns boardData)),
      tasksByPriority = foldl countPriority [] (map snd (tasks boardData)),
      overdueTasks = length (filter (statsOverdue e) (map snd (tasks boardData))),
      stats_lastModified = lastModified boardData\<rparr>"

text \<open>
  \<^verbatim>\<open>importBoardData\<close> takes untyped data and stores \<^verbatim>\<open>{...importData, lastModified}\<close>,
  whatever its fields are: the stored value is a \<open>jsval\<close>. After the guard has passed
  \<open>importData\<close> is an object (nothing else has a truthy \<^verbatim>\<open>tasks\<close> property), so the spread
  is written for objects. The updater sets \<^verbatim>\<open>lastModified\<close> and \<^verbatim>\<open>updateBoardData\<close>
  sets it again.
\<close>

fun spread :: "jsval \<Rightarrow> (string \<times> jsval) list" where
  "spread (JObj kvs) = kvs"
| "spread v = []"

definition propTruthy :: "jsval \<Rightarrow> string \<Rightarrow> bool" where
  "propTruthy v k = (case getProp v k of Inl err \<Rightarrow> False | Inr x \<Rightarrow> truthy x)"

definition importBoardData :: "env \<Rightarrow> jsval \<Rightarrow> error + jsval" where
  "importBoardData e importData =
     (if \<not> truthy importData \<or> \<not> propTruthy importData ''tasks''
         \<or> \<not> propTruthy importData ''columns''
      then Inl InvalidImport
      else Inr (JObj (AList.update ''lastModified'' (JStr (now e))
                        (AList.update ''lastModified'' (JStr (now e)) (spread importData)))))"

text \<open>The plain objects of a snapshot as untyped data, field by field.\<close>

definition js_of_task :: "task \<Rightarrow> jsval" where
  "js_of_task t = JObj [(''id'', JStr (task_id t)), (''title'', JStr (task_title t)),
     (''description'', JStr (description t)), (''priority'', JStr (priority t)),
     (''assignee'', JStr (assignee t)), (''dueDate'', JStr (dueDate t)),
     (''createdAt'', JStr (task_createdAt t)), (''updatedAt'', JStr (task_updatedAt t))]"

definition js_of_column :: "column \<Rightarrow> jsval" where
  "js_of_column c = JObj [(''id'', JStr (column_id c)), (''title'', JStr (column_title c)),
     (''color'', JStr (color c)), (''taskIds'', JArr (map JStr (taskIds c))),
     (''createdAt'', JStr (column_createdAt c)), (''updatedAt'', JStr (column_updatedAt c)),
     (''order'', JNum (order c))]"

definition js_of_board :: "board \<Rightarrow> jsval" where
  "js_of_board b = JObj [(''tasks'', JObj (map (\<lambda>(k, t). (k, js_of_task t)) (tasks b))),
     (''columns'', JObj (map (\<lambda>(k, c). (k, js_of_column c)) (columns b))),
     (''columnOrder'', JArr (map JStr (columnOrder b))),
     (''lastModified'', JStr (lastModified b))]"

section \<open>services/storage.js\<close>

record import_result =
  success :: bool
  data :: jsval
  error :: string
  version :: jsval
  exportedAt :: jsval




section \<open>Invariants of a snapshot and runs of the store\<close>

text \<open>
  The keys of a JavaScript object are unique; an association list that models one has no
  key twice.
\<close>

definition isObject :: "(string \<times> 'v) list \<Rightarrow> bool" where
  "isObject kvs = distinct (map fst kvs)"

text \<open>\<open>columnOrder\<close> has no duplicate and holds exactly the keys of \<open>columns\<close>.\<close>

definition columnOrderOk :: "board \<Rightarrow> bool" where
  "columnOrderOk b =
     (distinct (columnOrder b) \<and> set (columnOrder b) = set (map fst (columns b)))"

text \<open>The columns whose \<open>taskIds\<close> hold a task id, and: every stored task has one.\<close>

definition owners :: "board \<Rightarrow> string \<Rightarrow> string list" where
  "owners b t = map fst (filter (\<lambda>(k, c). t \<in> set (taskIds c)) (columns b))"

definition tasksOwnedOnce :: "board \<Rightarrow> bool" where
  "tasksOwnedOnce b = list_all (\<lambda>t. length (owners b t) = 1) (map fst (tasks b))"

definition boardInvariant :: "board \<Rightarrow> bool" where
  "boardInvariant b = (columnOrderOk b \<and> tasksOwnedOnce b)"

text \<open>
  The two invariants on a snapshot whose \<open>tasks\<close> and \<open>columns\<close> are objects. This is what
  the operations are shown to keep.
\<close>

definition storeInv :: "board \<Rightarrow> bool" where
  "storeInv b = (isObject (tasks b) \<and> isObject (columns b) \<and> boardInvariant b)"

text \<open>
  Column \<open>k\<close> lists task id \<open>t\<close>; and, for a relation \<open>L\<close> between column keys and task
  ids: every id of \<open>T\<close> is related to exactly one key.
\<close>

definition listed :: "(string \<times> column) list \<Rightarrow> string \<Rightarrow> string \<Rightarrow> bool" where
  "listed cols k t = (case map_of cols k of None \<Rightarrow> False | Some c \<Rightarrow> t \<in> set (taskIds c))"

definition ownedOnce :: "(string \<Rightarrow> string \<Rightarrow> bool) \<Rightarrow> string set \<Rightarrow> bool" where
  "ownedOnce L T = (\<forall>t \<in> T. \<exists>k. L k t \<and> (\<forall>k'. L k' t \<longrightarrow> k' = k))"

text \<open>
  One successful call of an operation of the store, with any arguments and any answer of
  the outside world, made from a render of the snapshot it acts on. An import is followed
  as far as the stored value is again a snapshot with typed fields.
\<close>

inductive step :: "board \<Rightarrow> board \<Rightarrow> bool" where
  step_addTask: "addTask e columnId taskData b = Inr (taskId, b') \<Longrightarrow> step b b'"
| step_updateTask: "updateTask e taskId taskUpdates b = Inr b' \<Longrightarrow> step b b'"
| step_deleteTask: "deleteTask e confirmed taskId b = Inr (r, b') \<Longrightarrow> step b b'"
| step_moveTask: "moveTask e taskId targetColumnId b = Inr b' \<Longrightarrow> step b b'"
| step_addColumn: "addColumn e columnData b = Inr (columnId, b') \<Longrightarrow> step b b'"
| step_updateColumn: "updateColumn e columnId columnUpdates b = Inr b' \<Longrightarrow> step b b'"
| step_deleteColumn: "deleteColumn e confirmed columnId b b = Inr (r, b') \<Longrightarrow> step b b'"
| step_reorderColumns: "reorderColumns e newColumnOrder b = Inr b' \<Longrightarrow> step b b'"
| step_clearBoard: "clearBoard e confirmed b = b' \<Longrightarrow> step b b'"
| step_importBoardData: "importBoardData e importData = Inr (js_of_board b') \<Longrightarrow> step b b'"

inductive reachable :: "board \<Rightarrow> bool" where
  reachable_empty: "reachable (emptyBoard stamp)"
| reachable_step: "reachable b \<Longrightarrow> step b b' \<Longrightarrow> reachable b'"

text \<open>
  The calls that keep the invariant:
  \<^item> \<open>addTask\<close> whose generated id is no key of \<open>tasks\<close> and is listed by no column, and
    \<open>addColumn\<close> whose generated id is no key of \<open>columns\<close>;
  \<^item> \<open>updateTask\<close> on a key of \<open>tasks\<close>, and \<open>updateColumn\<close> on a key of \<open>columns\<close> with a
    patch that leaves \<open>taskIds\<close> as it is;
  \<^item> \<open>deleteColumn\<close> from a render whose snapshot \<open>boardData\<close> has, under the column id,
    what the current snapshot has;
  \<^item> \<open>reorderColumns\<close> with a list of the same set of ids and the same length;
  \<^item> an import of a snapshot \<open>d\<close> that satisfies the two invariants (\<open>d\<close> stands for
    JavaScript objects, so no key occurs twice in \<open>tasks\<close> or \<open>columns\<close>);
  \<^item> \<open>deleteTask\<close>, \<open>moveTask\<close> and \<open>clearBoard\<close> with any arguments.
\<close>

inductive guardedStep :: "board \<Rightarrow> board \<Rightarrow> bool" where
  guarded_addTask:
    "addTask e columnId taskData b = Inr (taskId, b') \<Longrightarrow>
     taskId \<notin> set (map fst (tasks b)) \<Longrightarrow> owners b taskId = [] \<Longrightarrow> guardedStep b b'"
| guarded_updateTask:
    "updateTask e taskId taskUpdates b = Inr b' \<Longrightarrow>
     taskId \<in> set (map fst (tasks b)) \<Longrightarrow> guardedStep b b'"
| guarded_deleteTask: "deleteTask e confirmed taskId b = Inr (r, b') \<Longrightarrow> guardedStep b b'"
| guarded_moveTask: "moveTask e taskId targetColumnId b = Inr b' \<Longrightarrow> guardedStep b b'"
| guarded_addColumn:
    "addColumn e columnData b = Inr (columnId, b') \<Longrightarrow>
     columnId \<notin> set (map fst (columns b)) \<Longrightarrow> guardedStep b b'"
| guarded_updateColumn:
    "updateColumn e columnId columnUpdates b = Inr b' \<Longrightarrow>
     map_of (columns b) columnId = Some c \<Longrightarrow>
     p_taskIds columnUpdates = None \<or> p_taskIds columnUpdates = Some (taskIds c) \<Longrightarrow>
     guardedStep b b'"
| guarded_deleteColumn:
    "deleteColumn e confirmed columnId boardData b = Inr (r, b') \<Longrightarrow>
     objGet (columns boardData) columnId = objGet (columns b) columnId \<Longrightarrow>
     guardedStep b b'"
| guarded_reorderColumns:
    "reorderColumns e newColumnOrder b = Inr b' \<Longrightarrow>
     set newColumnOrder = set (columnOrder b) \<Longrightarrow>
     length newColumnOrder = length (columnOrder b) \<Longrightarrow> guardedStep b b'"
| guarded_clearBoard: "clearBoard e confirmed b = b' \<Longrightarrow> guardedStep b b'"
| guarded_importBoardData:
    "importBoardData e (js_of_board d) = Inr (js_of_board b') \<Longrightarrow>
     isObject (tasks d) \<Longrightarrow> isObject (columns d) \<Longrightarrow> boardInvariant d \<Longrightarrow>
     guardedStep b b'"

inductive guardedReachable :: "board \<Rightarrow> bool" where
  guarded_empty: "guardedReachable (emptyBoard stamp)"
| guarded_step: "guardedReachable b \<Longrightarrow> guardedStep b b' \<Longrightarrow> guardedReachable b'"


section \<open>Concrete inputs\<close>

definition parseDate1 :: "string \<Rightarrow> int option" where
  "parseDate1 s =
     (if s = ''2026-11-03'' then Some 1793664000000
      else if s = ''2026-11-02'' then Some 1793577600000
      else None)"

text \<open>Noon of 3 November 2026, UTC, then one and two minutes later.\<close>

definition env1 :: env where
  "env1 = \<lparr>now = ''2026-11-03T12:00:00.000Z'', nowMs = 1793707200000,
     timestamp36 = ''mw0mydc0'', randomStr = ''k3j9x2m1q'',
     Date_parse = parseDate1, tzOffset = 0\<rparr>"

definition env2 :: env where
  "env2 = \<lparr>now = ''2026-11-03T12:01:00.000Z'', nowMs = 1793707260000,
     timestamp36 = ''mw0mznmo'', randomStr = ''p7c2v8d4w'',
     Date_parse = parseDate1, tzOffset = 0\<rparr>"

definition env3 :: env where
  "env3 = \<lparr>now = ''2026-11-03T12:02:00.000Z'', nowMs = 1793707320000,
     timestamp36 = ''mw0n0xxc'', randomStr = ''z1q8r5t3y'',
     Date_parse = parseDate1, tzOffset = 0\<rparr>"

definition board0 :: board where
  "board0 = emptyBoard ''2026-11-03T11:00:00.000Z''"

definition todoForm :: column_form where
  "todoForm = \<lparr>cf_id = [], cf_title = ''To Do'', cf_color = ''bg-gray-100'', cf_order = 0\<rparr>"

definition doneForm :: column_form where
  "doneForm = \<lparr>cf_id = [], cf_title = ''Done'', cf_color = ''bg-green-50'', cf_order = 0\<rparr>"

definition todoColumn :: column where
  "todoColumn = \<lparr>column_id = [], column_title = ''To Do'', color = ''bg-gray-100'',
     taskIds = [], column_createdAt = ''2026-11-03T12:00:00.000Z'',
     column_updatedAt = ''2026-11-03T12:00:00.000Z'', order = 0\<rparr>"

text \<open>The board after \<open>addColumn\<close> of \<open>todoForm\<close> on the empty board.\<close>

definition board1 :: board where
  "board1 = \<lparr>tasks = [], columns = [(''column-id-mw0mydc0-k3j9x2m1q'', todoColumn)],
     columnOrder = [''column-id-mw0mydc0-k3j9x2m1q''],
     lastModified = ''2026-11-03T12:00:00.000Z''\<rparr>"

definition specForm :: task_form where
  "specForm = \<lparr>f_id = [], f_title = ''Write spec'', f_description = [], f_priority = [],
     f_assignee = [], f_dueDate = ''2026-11-03''\<rparr>"

definition specTask :: task where
  "specTask = \<lparr>task_id = [], task_title = ''Write spec'', description = [],
     priority = ''medium'', assignee = [], dueDate = ''2026-11-03'',
     task_createdAt = ''2026-11-03T12:01:00.000Z'',
     task_updatedAt = ''2026-11-03T12:01:00.000Z''\<rparr>"

text \<open>The board after \<open>addTask\<close> of \<open>specForm\<close> to the column of \<open>board1\<close>.\<close>

definition board2 :: board where
  "board2 = \<lparr>tasks = [(''task-id-mw0mznmo-p7c2v8d4w'', specTask)],
     columns = [(''column-id-mw0mydc0-k3j9x2m1q'',
                 todoColumn\<lparr>taskIds := [''task-id-mw0mznmo-p7c2v8d4w''],
                            column_updatedAt := ''2026-11-03T12:01:00.000Z''\<rparr>)],
     columnOrder = [''column-id-mw0mydc0-k3j9x2m1q''],
     lastModified = ''2026-11-03T12:01:00.000Z''\<rparr>"

definition doneColumn :: column where
  "doneColumn = \<lparr>column_id = [], column_title = ''Done'', color = ''bg-green-50'',
     taskIds = [], column_createdAt = ''2026-11-03T12:02:00.000Z'',
     column_updatedAt = ''2026-11-03T12:02:00.000Z'', order = 0\<rparr>"

text \<open>The board after \<open>addColumn\<close> of \<open>doneForm\<close> on \<open>board2\<close>.\<close>

definition board3 :: board where
  "board3 = board2\<lparr>columns := columns board2 @ [(''column-id-mw0n0xxc-z1q8r5t3y'', doneColumn)],
     columnOrder := [''column-id-mw0mydc0-k3j9x2m1q'', ''column-id-mw0n0xxc-z1q8r5t3y''],
     lastModified := ''2026-11-03T12:02:00.000Z''\<rparr>"

definition abcColumn :: column where
  "abcColumn = todoColumn\<lparr>taskIds := [''a'', ''b'', ''c'']\<rparr>"

text \<open>An import payload whose \<^verbatim>\<open>tasks\<close> is a number, and an export envelope.\<close>

definition mistypedImport :: jsval where
  "mistypedImport = JObj [(''tasks'', JNum 1), (''columns'', JObj []), (''columnOrder'', JArr [])]"



text \<open>
  A snapshot whose column lists the id \<^verbatim>\<open>constructor\<close>, and the stored task, while \<open>tasks\<close>
  has the stored task only.
\<close>

definition board2c :: board where
  "board2c = board2\<lparr>columns := [(''column-id-mw0mydc0-k3j9x2m1q'',
       todoColumn\<lparr>taskIds := [''constructor'', ''gone'', ''task-id-mw0mznmo-p7c2v8d4w'']\<rparr>)]\<rparr>"


section \<open>Evaluating the concrete inputs\<close>

lemmas sample_defs = env1_def env2_def env3_def board0_def board1_def board2_def board3_def
  todoForm_def doneForm_def todoColumn_def doneColumn_def specForm_def specTask_def
  abcColumn_def parseDate1_def emptyBoard_def board2c_def

lemmas id_defs = generateId_def generateTaskId_def generateColumnId_def

lemmas validate_defs = ColumnType_validate_def TaskType_validate_def trim_def isWhiteSpace_def
  COLUMN_COLORS_def PRIORITY_LEVELS_def orElse_def

lemma addColumn_board0:
  "addColumn env1 todoForm board0 = Inr (''column-id-mw0mydc0-k3j9x2m1q'', board1)"
  by (simp add: addColumn_def sample_defs id_defs ColumnFactory_createFromForm_def
      validate_defs updateBoardData_def Let_def)

lemma addTask_board1:
  "addTask env2 ''column-id-mw0mydc0-k3j9x2m1q'' specForm board1
     = Inr (''task-id-mw0mznmo-p7c2v8d4w'', board2)"
  by (simp add: addTask_def sample_defs id_defs TaskFactory_createFromForm_def
      validate_defs updateBoardData_def objGet_def Let_def)

lemma addColumn_board2:
  "addColumn env3 doneForm board2 = Inr (''column-id-mw0n0xxc-z1q8r5t3y'', board3)"
  by (simp add: addColumn_def sample_defs id_defs ColumnFactory_createFromForm_def
      validate_defs updateBoardData_def Let_def)

section \<open>What addTask and addColumn do store\<close>

lemma createFromForm_ignores_id:
  "TaskFactory_createFromForm e (taskData\<lparr>f_id := i\<rparr>) = TaskFactory_createFromForm e taskData"
  by (simp add: TaskFactory_createFromForm_def)

text \<open>
  X1. For task data that passes validation: \<open>addTask\<close> fails with \<open>Column ... not found\<close> when
  the column id names no property of \<open>columns\<close>, and with a type error when it names an
  inherited member only; for a key of \<open>columns\<close> it returns the generated id, which is not
  empty, appends it last to the column's \<open>taskIds\<close>, leaves every other column and
  \<open>columnOrder\<close> as they are, and stores under the id the task made from the form, whose
  \<open>id\<close> field is empty. Data that does not pass validation is refused before the column is
  looked up.
\<close>

theorem addTask_appends_generated_id:
  "(\<not> isValid (TaskType_validate e (TaskFactory_createFromForm e taskData)) \<longrightarrow>
      addTask e columnId taskData b
        = Inl (Invalid (errors (TaskType_validate e (TaskFactory_createFromForm e taskData)))))
   \<and> (isValid (TaskType_validate e (TaskFactory_createFromForm e taskData))
        \<and> objGet (columns b) columnId = Undefined \<longrightarrow>
        addTask e columnId taskData b = Inl (ColumnNotFound columnId))
   \<and> (isValid (TaskType_validate e (TaskFactory_createFromForm e taskData))
        \<and> objGet (columns b) columnId = Inherited \<longrightarrow>
        addTask e columnId taskData b = Inl (TypeError ''taskIds''))
   \<and> (\<forall>c. isValid (TaskType_validate e (TaskFactory_createFromForm e taskData))
        \<and> map_of (columns b) columnId = Some c \<longrightarrow>
        (\<exists>b'. addTask e columnId taskData b = Inr (generateTaskId e, b')
           \<and> generateTaskId e \<noteq> []
           \<and> map_of (columns b') columnId
               = Some (c\<lparr>taskIds := taskIds c @ [generateTaskId e], column_updatedAt := now e\<rparr>)
           \<and> (\<forall>k. k \<noteq> columnId \<longrightarrow> map_of (columns b') k = map_of (columns b) k)
           \<and> map_of (tasks b') (generateTaskId e) = Some (TaskFactory_createFromForm e taskData)
           \<and> task_id (TaskFactory_createFromForm e taskData) = []
           \<and> columnOrder b' = columnOrder b \<and> lastModified b' = now e))"
  by (auto simp: addTask_def Let_def createFromForm_ignores_id updateBoardData_def update_conv'
      generateTaskId_def objGet_def)
    (simp_all add: TaskFactory_createFromForm_def)

theorem addTask_appends_generated_id_witness:
  "\<exists>b'. addTask env2 ''column-id-mw0mydc0-k3j9x2m1q'' specForm board1
           = Inr (''task-id-mw0mznmo-p7c2v8d4w'', b')
        \<and> map_of (columns b') ''column-id-mw0mydc0-k3j9x2m1q''
            = Some (todoColumn\<lparr>taskIds := [''task-id-mw0mznmo-p7c2v8d4w''],
                               column_updatedAt := ''2026-11-03T12:01:00.000Z''\<rparr>)
        \<and> map_of (tasks b') ''task-id-mw0mznmo-p7c2v8d4w'' = Some specTask"
proof -
  have v: "isValid (TaskType_validate env2 (TaskFactory_createFromForm env2 specForm))"
    by (simp add: TaskFactory_createFromForm_def validate_defs specForm_def env2_def
        parseDate1_def Let_def)
  have c: "map_of (columns board1) ''column-id-mw0mydc0-k3j9x2m1q'' = Some todoColumn"
    by (simp add: board1_def)
  have g: "generateTaskId env2 = ''task-id-mw0mznmo-p7c2v8d4w''"
    by (simp add: id_defs env2_def)
  have t: "TaskFactory_createFromForm env2 specForm = specTask"
    by (simp add: TaskFactory_createFromForm_def specForm_def specTask_def env2_def orElse_def)
  have n: "now env2 = ''2026-11-03T12:01:00.000Z''" by (simp add: env2_def)
  from v c addTask_appends_generated_id [of env2 specForm "''column-id-mw0mydc0-k3j9x2m1q''" board1]
  obtain b' where "addTask env2 ''column-id-mw0mydc0-k3j9x2m1q'' specForm board1 = Inr (generateTaskId env2, b')"
    and "map_of (columns b') ''column-id-mw0mydc0-k3j9x2m1q''
               = Some (todoColumn\<lparr>taskIds := taskIds todoColumn @ [generateTaskId env2], column_updatedAt := now env2\<rparr>)"
    and "map_of (tasks b') (generateTaskId env2) = Some (TaskFactory_createFromForm env2 specForm)"
    by blast
  then show ?thesis
    unfolding g t n by (auto simp: todoColumn_def)
qed

text \<open>
  X2. For column data that passes validation, \<open>addColumn\<close> returns the generated id, which is
  not empty, stores under it a column without tasks whose \<open>order\<close> is 0, and appends the id
  to \<open>columnOrder\<close>; \<open>tasks\<close> stays as it is. Other data is refused.
\<close>

theorem addColumn_appends_generated_id:
  "(\<not> isValid (ColumnType_validate (ColumnFactory_createFromForm e columnData)) \<longrightarrow>
      addColumn e columnData b
        = Inl (Invalid (errors (ColumnType_validate (ColumnFactory_createFromForm e columnData)))))
   \<and> (isValid (ColumnType_validate (ColumnFactory_createFromForm e columnData)) \<longrightarrow>
        (\<exists>b'. addColumn e columnData b = Inr (generateColumnId e, b')
           \<and> generateColumnId e \<noteq> []
           \<and> map_of (columns b') (generateColumnId e) = Some (ColumnFactory_createFromForm e columnData)
           \<and> order (ColumnFactory_createFromForm e columnData) = 0
           \<and> taskIds (ColumnFactory_createFromForm e columnData) = []
           \<and> columnOrder b' = columnOrder b @ [generateColumnId e]
           \<and> tasks b' = tasks b \<and> lastModified b' = now e))"
proof -
  have same: "ColumnFactory_createFromForm e (columnData\<lparr>cf_id := i, cf_order := n\<rparr>)
          = ColumnFactory_createFromForm e columnData" for i n
    by (simp add: ColumnFactory_createFromForm_def)
  show ?thesis
    by (auto simp: addColumn_def Let_def same updateBoardData_def update_conv' generateColumnId_def)
      (simp_all add: ColumnFactory_createFromForm_def)
qed

theorem addColumn_appends_generated_id_witness:
  "\<exists>b'. addColumn env3 doneForm board2 = Inr (''column-id-mw0n0xxc-z1q8r5t3y'', b')
        \<and> map_of (columns b') ''column-id-mw0n0xxc-z1q8r5t3y'' = Some doneColumn
        \<and> columnOrder b' = [''column-id-mw0mydc0-k3j9x2m1q'', ''column-id-mw0n0xxc-z1q8r5t3y'']"
proof -
  have v: "isValid (ColumnType_validate (ColumnFactory_createFromForm env3 doneForm))"
    by (simp add: ColumnFactory_createFromForm_def validate_defs doneForm_def Let_def)
  have g: "generateColumnId env3 = ''column-id-mw0n0xxc-z1q8r5t3y''"
    by (simp add: id_defs env3_def)
  have c: "ColumnFactory_createFromForm env3 doneForm = doneColumn"
    by (simp add: ColumnFactory_createFromForm_def doneForm_def doneColumn_def env3_def orElse_def)
  have o: "columnOrder board2 = [''column-id-mw0mydc0-k3j9x2m1q'']" by (simp add: board2_def)
  from v addColumn_appends_generated_id [of env3 doneForm board2]
  obtain b' where "addColumn env3 doneForm board2 = Inr (generateColumnId env3, b')"
    and "map_of (columns b') (generateColumnId env3) = Some (ColumnFactory_createFromForm env3 doneForm)"
    and "columnOrder b' = columnOrder board2 @ [generateColumnId env3]"
    by blast
  then show ?thesis
    unfolding g c o by auto
qed

section \<open>addTask and the id of the stored task\<close>

text \<open>
  C4: \<open>addTask\<close> hands the generated id to \<open>TaskFactory.createFromForm\<close>, which does not
  pass it on to the constructor. On \<open>board1\<close> the call returns the new id, appends it to the
  column and inserts a task under that key whose \<open>id\<close> field is the empty string.
\<close>

theorem addTask_stored_id_empty:
  "addTask env2 ''column-id-mw0mydc0-k3j9x2m1q'' specForm board1
     = Inr (''task-id-mw0mznmo-p7c2v8d4w'', board2)
   \<and> map_of (tasks board2) ''task-id-mw0mznmo-p7c2v8d4w'' = Some specTask
   \<and> task_id specTask = []"
  using addTask_board1 by (simp add: board2_def specTask_def)
section \<open>addColumn and the order field\<close>

text \<open>
  C7: \<open>addColumn\<close> hands the generated id and \<open>order = columnOrder.length\<close> to
  \<open>ColumnFactory.createFromForm\<close>, which passes on \<open>title\<close> and \<open>color\<close> only. On
  \<open>board2\<close>, whose \<open>columnOrder\<close> has length 1, the stored column has \<open>order\<close> 0; its id is
  appended to \<open>columnOrder\<close>.
\<close>

theorem addColumn_order_always_zero:
  "addColumn env3 doneForm board2 = Inr (''column-id-mw0n0xxc-z1q8r5t3y'', board3)
   \<and> length (columnOrder board2) = 1
   \<and> map_of (columns board3) ''column-id-mw0n0xxc-z1q8r5t3y'' = Some doneColumn
   \<and> order doneColumn = 0
   \<and> columnOrder board3 = columnOrder board2 @ [''column-id-mw0n0xxc-z1q8r5t3y'']"
  using addColumn_board2 by (simp add: board2_def board3_def doneColumn_def)
section \<open>moveTask onto the task's own column\<close>

lemma findSourceColumn_owners:
  "findSourceColumn t (columns b) = (case owners b t of [] \<Rightarrow> None | k # ks \<Rightarrow> Some k)"
proof -
  have "findSourceColumn t cols
          = (case map fst (filter (\<lambda>(k, c). t \<in> set (taskIds c)) cols) of
               [] \<Rightarrow> None | k # ks \<Rightarrow> Some k)" for cols
    by (induction cols) auto
  then show ?thesis by (simp add: owners_def)
qed

text \<open>
  C5, as claimed: moving a task onto the column that owns it returns a snapshot deep-equal
  to the input, \<open>lastModified\<close> included. The updater returns the snapshot it was given,
  but \<open>updateBoardData\<close> stamps whatever an updater returns: on \<open>board2\<close>, last modified at
  12:01, the move at 12:02 yields a snapshot last modified at 12:02.
\<close>

theorem moveTask_same_column_restamps:
  "moveTask env3 ''task-id-mw0mznmo-p7c2v8d4w'' ''column-id-mw0mydc0-k3j9x2m1q'' board2
     = Inr (board2\<lparr>lastModified := ''2026-11-03T12:02:00.000Z''\<rparr>)
   \<and> lastModified board2 = ''2026-11-03T12:01:00.000Z''
   \<and> moveTask env3 ''task-id-mw0mznmo-p7c2v8d4w'' ''column-id-mw0mydc0-k3j9x2m1q'' board2
     \<noteq> Inr board2"
  by (simp add: moveTask_def updateBoardData_def board2_def env3_def todoColumn_def)

text \<open>
  C5, amended: for every board and every task \<open>t\<close> that exactly one column \<open>c\<close> lists, \<open>c\<close>
  not the empty string, \<open>moveTask(t, c)\<close> succeeds and changes nothing but \<open>lastModified\<close>,
  which is set to the time of the call: \<open>tasks\<close>, \<open>columns\<close> and \<open>columnOrder\<close> are those
  of the input.
\<close>

theorem moveTask_same_column_keeps_content:
  assumes "owners b t = [c]" and "c \<noteq> []"
  shows "moveTask e t c b = Inr (b\<lparr>lastModified := now e\<rparr>)"
  using assms by (simp add: moveTask_def findSourceColumn_owners updateBoardData_def)

theorem moveTask_same_column_keeps_content_witness:
  "owners board2 ''task-id-mw0mznmo-p7c2v8d4w'' = [''column-id-mw0mydc0-k3j9x2m1q'']
   \<and> moveTask env3 ''task-id-mw0mznmo-p7c2v8d4w'' ''column-id-mw0mydc0-k3j9x2m1q'' board2
     = Inr (board2\<lparr>lastModified := now env3\<rparr>)"
proof -
  have o: "owners board2 ''task-id-mw0mznmo-p7c2v8d4w'' = [''column-id-mw0mydc0-k3j9x2m1q'']"
    by (simp add: owners_def board2_def todoColumn_def)
  have n: "''column-id-mw0mydc0-k3j9x2m1q'' \<noteq> []" by simp
  from o moveTask_same_column_keeps_content [OF o n, of env3] show ?thesis by simp
qed
section \<open>reorderColumns\<close>

text \<open>
  C2, as claimed: \<open>reorderColumns(newOrder)\<close> fails with a validation error when
  \<open>newOrder\<close> is no permutation of \<open>columnOrder\<close> and leaves \<open>columnOrder\<close> unchanged.
  The source has no such check. On the board with one column the empty list is accepted
  and becomes the column order.
\<close>

theorem reorderColumns_accepts_non_permutation:
  "reorderColumns env2 [] board1
     = Inr (board1\<lparr>columnOrder := [], lastModified := ''2026-11-03T12:01:00.000Z''\<rparr>)
   \<and> columnOrder board1 = [''column-id-mw0mydc0-k3j9x2m1q'']"
  by (simp add: reorderColumns_def updateBoardData_def env2_def board1_def)

text \<open>
  C2, amended: for every board and every list \<open>newOrder\<close>, permutation of \<open>columnOrder\<close>
  or not, \<open>reorderColumns(newOrder)\<close> succeeds; the new snapshot has \<open>newOrder\<close> verbatim
  as its \<open>columnOrder\<close>, the same \<open>tasks\<close> and \<open>columns\<close>, and a new \<open>lastModified\<close>.
\<close>

theorem reorderColumns_replaces_verbatim:
  "\<exists>b'. reorderColumns e newOrder b = Inr b' \<and> columnOrder b' = newOrder
        \<and> tasks b' = tasks b \<and> columns b' = columns b \<and> lastModified b' = now e"
  by (simp add: reorderColumns_def updateBoardData_def)

theorem reorderColumns_replaces_verbatim_witness:
  "\<exists>b'. reorderColumns env2 [''column-id-mw0mydc0-k3j9x2m1q''] board1 = Inr b'
        \<and> columnOrder b' = [''column-id-mw0mydc0-k3j9x2m1q'']
        \<and> tasks b' = tasks board1 \<and> columns b' = columns board1
        \<and> lastModified b' = now env2"
  by (rule reorderColumns_replaces_verbatim)
section \<open>importBoardData\<close>

lemma propTruthy_JObj:
  "propTruthy (JObj kvs) k = (\<exists>v. map_of kvs k = Some v \<and> truthy v)"
  by (cases "map_of kvs k") (simp_all add: propTruthy_def)

lemma propTruthy_object: "propTruthy d k \<Longrightarrow> \<exists>kvs. d = JObj kvs"
  by (cases d) (simp_all add: propTruthy_def)

text \<open>
  C3, as claimed: \<open>importSnapshot(data)\<close> fails when \<open>tasks\<close>, \<open>columns\<close> or
  \<open>columnOrder\<close> is missing or has the wrong type. The guard of the source tests only that
  \<open>data\<close>, \<open>data.tasks\<close> and \<open>data.columns\<close> are truthy: a payload whose \<open>tasks\<close> is the
  number 1 is accepted and stored.
\<close>

theorem importBoardData_accepts_mistyped_tasks:
  "importBoardData env1 mistypedImport
     = Inr (JObj [(''tasks'', JNum 1), (''columns'', JObj []), (''columnOrder'', JArr []),
                  (''lastModified'', JStr ''2026-11-03T12:00:00.000Z'')])"
  by (simp add: importBoardData_def mistypedImport_def propTruthy_def env1_def)

text \<open>
  C3, amended: \<open>importSnapshot(data)\<close> fails with the error
  \<open>Invalid import data structure\<close>, the store keeping its snapshot, when \<open>data\<close> is not an
  object or its \<open>tasks\<close> or \<open>columns\<close> property is missing or falsy. When \<open>data\<close> is an
  object with truthy \<open>tasks\<close> and \<open>columns\<close>, of whatever type, and an array
  \<open>columnOrder\<close>, the import succeeds: the store then holds the properties of \<open>data\<close> as
  they are, with \<open>lastModified\<close> set to the time of the call.
\<close>

theorem importBoardData_checks_truthiness:
  "((\<forall>kvs. d \<noteq> JObj kvs) \<longrightarrow> importBoardData e d = Inl InvalidImport)
   \<and> (\<forall>kvs. d = JObj kvs \<and>
          (\<not> (\<exists>t. map_of kvs ''tasks'' = Some t \<and> truthy t)
           \<or> \<not> (\<exists>c. map_of kvs ''columns'' = Some c \<and> truthy c))
        \<longrightarrow> importBoardData e d = Inl InvalidImport)
   \<and> (\<forall>kvs t c order. d = JObj kvs \<and> map_of kvs ''tasks'' = Some t \<and> truthy t
          \<and> map_of kvs ''columns'' = Some c \<and> truthy c
          \<and> map_of kvs ''columnOrder'' = Some (JArr order)
        \<longrightarrow> (\<exists>kvs'. importBoardData e d = Inr (JObj kvs')
               \<and> map_of kvs' = (map_of kvs)(''lastModified'' \<mapsto> JStr (now e))))"
proof (intro conjI allI impI)
  assume "\<forall>kvs. d \<noteq> JObj kvs"
  then have "\<not> propTruthy d ''tasks''"
    using propTruthy_object by blast
  then show "importBoardData e d = Inl InvalidImport"
    by (simp add: importBoardData_def)
next
  fix kvs
  assume "d = JObj kvs \<and>
          (\<not> (\<exists>t. map_of kvs ''tasks'' = Some t \<and> truthy t)
           \<or> \<not> (\<exists>c. map_of kvs ''columns'' = Some c \<and> truthy c))"
  then have "\<not> propTruthy d ''tasks'' \<or> \<not> propTruthy d ''columns''"
    by (simp add: propTruthy_JObj)
  then show "importBoardData e d = Inl InvalidImport"
    by (auto simp: importBoardData_def)
next
  fix kvs t c order
  assume a: "d = JObj kvs \<and> map_of kvs ''tasks'' = Some t \<and> truthy t
          \<and> map_of kvs ''columns'' = Some c \<and> truthy c
          \<and> map_of kvs ''columnOrder'' = Some (JArr order)"
  then have "propTruthy d ''tasks''" "propTruthy d ''columns''" "truthy d"
    by (simp_all add: propTruthy_JObj)
  with a have "importBoardData e d
      = Inr (JObj (AList.update ''lastModified'' (JStr (now e))
                     (AList.update ''lastModified'' (JStr (now e)) kvs)))"
    by (simp add: importBoardData_def)
  then show "\<exists>kvs'. importBoardData e d = Inr (JObj kvs')
               \<and> map_of kvs' = (map_of kvs)(''lastModified'' \<mapsto> JStr (now e))"
    by (simp add: update_conv')
qed

theorem importBoardData_checks_truthiness_witness:
  "importBoardData env1 (JStr ''tasks'') = Inl InvalidImport
   \<and> importBoardData env1 (JObj [(''tasks'', JObj []), (''columnOrder'', JArr [])]) = Inl InvalidImport
   \<and> (\<exists>kvs'. importBoardData env1 (JObj [(''tasks'', JObj []), (''columns'', JObj []), (''columnOrder'', JArr [])])
               = Inr (JObj kvs')
        \<and> map_of kvs' = (map_of [(''tasks'', JObj []), (''columns'', JObj []), (''columnOrder'', JArr [])])
                            (''lastModified'' \<mapsto> JStr (now env1)))"
proof -
  let ?missing = "[(''tasks'', JObj []), (''columnOrder'', JArr [])]"
  let ?good = "[(''tasks'', JObj []), (''columns'', JObj []), (''columnOrder'', JArr [])]"
  have 1: "importBoardData env1 (JStr ''tasks'') = Inl InvalidImport"
    using importBoardData_checks_truthiness [of "JStr ''tasks''" env1] by simp
  have 2: "importBoardData env1 (JObj ?missing) = Inl InvalidImport"
    using importBoardData_checks_truthiness [of "JObj ?missing" env1] by simp
  have 3: "\<exists>kvs'. importBoardData env1 (JObj ?good) = Inr (JObj kvs')
        \<and> map_of kvs' = (map_of ?good)(''lastModified'' \<mapsto> JStr (now env1))"
    using importBoardData_checks_truthiness [of "JObj ?good" env1] by simp
  from 1 2 3 show ?thesis by blast
qed

text \<open>
  A snapshot with typed fields passes the guard: importing it stores the same snapshot
  with a new \<open>lastModified\<close>.
\<close>

lemma importBoardData_js_of_board:
  "importBoardData e (js_of_board d) = Inr (js_of_board (d\<lparr>lastModified := now e\<rparr>))"
  by (simp add: importBoardData_def js_of_board_def propTruthy_def)

section \<open>importFromJSON\<close>




section \<open>getTasksForColumn\<close>






section \<open>The two overdue tests\<close>

lemma setHours0_div: "setHours0 e t = ((t + tzOffset e) div 86400000) * 86400000 - tzOffset e"
proof -
  have "(t + tzOffset e) mod 86400000 = (t + tzOffset e) - ((t + tzOffset e) div 86400000) * 86400000"
    by (simp add: minus_div_mult_eq_mod)
  then show ?thesis by (simp add: setHours0_def)
qed

lemma setHours0_mono: "a \<le> b \<Longrightarrow> setHours0 e a \<le> setHours0 e b"
proof -
  assume "a \<le> b"
  then have "(a + tzOffset e) div 86400000 \<le> (b + tzOffset e) div 86400000"
    by (simp add: zdiv_mono1)
  then show ?thesis by (simp add: setHours0_div)
qed

lemma isOverdue_statsOverdue: "isOverdue e t \<Longrightarrow> statsOverdue e t"
proof -
  assume o: "isOverdue e t"
  then obtain d where d: "dueDate t \<noteq> []" "Date_parse e (dueDate t) = Some d"
    and lt: "setHours0 e d < setHours0 e (nowMs e)"
    by (auto simp: isOverdue_def split: if_splits option.splits)
  have "d < nowMs e"
  proof (rule ccontr)
    assume "\<not> d < nowMs e"
    then have "setHours0 e (nowMs e) \<le> setHours0 e d" by (simp add: setHours0_mono)
    with lt show False by simp
  qed
  with d show ?thesis by (simp add: statsOverdue_def)
qed

lemma length_filter_mono:
  "(\<And>x. x \<in> set xs \<Longrightarrow> P x \<Longrightarrow> Q x) \<Longrightarrow> length (filter P xs) \<le> length (filter Q xs)"
  by (induction xs) auto

text \<open>
  X3. The overdue count of \<open>getBoardStats\<close> is the number of stored tasks that have a due date
  which parses to an instant before the current one. Every task for which \<open>isOverdue\<close>
  holds is among them, so the count is never below the number of tasks with \<open>isOverdue\<close>;
  and \<open>getBoardStats\<close> is a function of the snapshot that returns no snapshot.
\<close>

theorem getBoardStats_overdue_count:
  "overdueTasks (getBoardStats e b)
     = length (filter (\<lambda>t. dueDate t \<noteq> [] \<and> (\<exists>d. Date_parse e (dueDate t) = Some d \<and> d < nowMs e))
                (map snd (tasks b)))
   \<and> length (filter (isOverdue e) (map snd (tasks b))) \<le> overdueTasks (getBoardStats e b)
   \<and> totalTasks (getBoardStats e b) = length (tasks b)
   \<and> totalColumns (getBoardStats e b) = length (columns b)
   \<and> stats_lastModified (getBoardStats e b) = lastModified b"
proof -
  have p: "statsOverdue e = (\<lambda>t. dueDate t \<noteq> [] \<and> (\<exists>d. Date_parse e (dueDate t) = Some d \<and> d < nowMs e))"
    by (rule ext) (auto simp: statsOverdue_def split: option.splits)
  have "length (filter (isOverdue e) (map snd (tasks b)))
          \<le> length (filter (statsOverdue e) (map snd (tasks b)))"
    by (rule length_filter_mono) (rule isOverdue_statsOverdue)
  then show ?thesis
    by (simp add: getBoardStats_def p)
qed

theorem getBoardStats_overdue_count_witness:
  "overdueTasks (getBoardStats env2 board2) = 1
   \<and> length (filter (isOverdue env2) (map snd (tasks board2))) \<le> 1"
proof -
  have "length (filter (\<lambda>t. dueDate t \<noteq> [] \<and> (\<exists>d. Date_parse env2 (dueDate t) = Some d \<and> d < nowMs env2))
                (map snd (tasks board2))) = 1"
    by (simp add: board2_def specTask_def env2_def parseDate1_def)
  with getBoardStats_overdue_count [of env2 board2] show ?thesis by simp
qed
section \<open>getBoardStats and tasks due today\<close>

text \<open>
  C6: the overdue count of \<open>getBoardStats\<close> compares the parsed due date with the current
  instant, time of day included, where \<open>isOverdue\<close> compares the two days. At 12:01 on
  3 November 2026 the task of \<open>board2\<close>, due on that day, is counted as overdue, and
  \<open>isOverdue\<close> is false for it.
\<close>

theorem getBoardStats_counts_task_due_today:
  "overdueTasks (getBoardStats env2 board2) = 1
   \<and> length (filter (isOverdue env2) (map snd (tasks board2))) = 0
   \<and> dueDate specTask = ''2026-11-03'' \<and> now env2 = ''2026-11-03T12:01:00.000Z''"
  by (simp add: getBoardStats_def statsOverdue_def isOverdue_def setHours0_def
      board2_def specTask_def env2_def parseDate1_def)
section \<open>ColumnType.moveTask\<close>












section \<open>The invariant under the operations of the store\<close>

subsection \<open>Objects as association lists\<close>

lemma isObject_update: "isObject al \<Longrightarrow> isObject (AList.update k v al)"
  by (simp add: isObject_def distinct_update)

lemma isObject_delete: "isObject al \<Longrightarrow> isObject (AList.delete k al)"
  by (simp add: isObject_def distinct_delete)

lemma keys_update: "fst ` set (AList.update k v al) = insert k (fst ` set al)"
  using dom_update [of k v al] by simp

lemma keys_delete: "fst ` set (AList.delete k al) = fst ` set al - {k}"
  using delete_keys [of k al] by (metis list.set_map set_removeAll)

lemma isObject_deleteAll: "isObject al \<Longrightarrow> isObject (deleteAll ks al)"
  by (induction ks arbitrary: al) (simp_all add: isObject_delete)

lemma keys_deleteAll: "fst ` set (deleteAll ks al) = fst ` set al - set ks"
proof (induction ks arbitrary: al)
  case Nil
  then show ?case by simp
next
  case (Cons k ks)
  have "fst ` set (deleteAll (k # ks) al) = fst ` set (AList.delete k al) - set ks"
    using Cons.IH [of "AList.delete k al"] by simp
  also have "\<dots> = (fst ` set al - {k}) - set ks"
    by (simp only: keys_delete)
  also have "\<dots> = fst ` set al - set (k # ks)"
    by auto
  finally show ?case .
qed

lemma isObject_entry: "isObject al \<Longrightarrow> ((k, v) \<in> set al) = (map_of al k = Some v)"
  by (simp add: isObject_def)

subsection \<open>Which column lists which id\<close>

lemma listed_update:
  "listed (AList.update k c cols) k' t = (if k' = k then t \<in> set (taskIds c) else listed cols k' t)"
  by (simp add: listed_def update_conv')

lemma listed_delete: "listed (AList.delete k cols) k' t = (k' \<noteq> k \<and> listed cols k' t)"
  by (simp add: listed_def delete_conv')

lemma listed_entry: "map_of cols k = Some c \<Longrightarrow> listed cols k t = (t \<in> set (taskIds c))"
  by (simp add: listed_def)

lemma listed_no_entry: "map_of cols k = None \<Longrightarrow> \<not> listed cols k t"
  by (simp add: listed_def)

lemma set_owners:
  assumes "isObject (columns b)"
  shows "set (owners b t) = {k. listed (columns b) k t}"
proof (rule set_eqI)
  fix k
  have "k \<in> set (owners b t) \<longleftrightarrow> (\<exists>c. (k, c) \<in> set (columns b) \<and> t \<in> set (taskIds c))"
    by (force simp: owners_def)
  also have "\<dots> \<longleftrightarrow> (\<exists>c. map_of (columns b) k = Some c \<and> t \<in> set (taskIds c))"
    by (simp add: isObject_entry [OF assms])
  also have "\<dots> \<longleftrightarrow> listed (columns b) k t"
    by (auto simp: listed_def split: option.splits)
  finally show "k \<in> set (owners b t) \<longleftrightarrow> k \<in> {k. listed (columns b) k t}" by simp
qed

lemma distinct_owners: "isObject (columns b) \<Longrightarrow> distinct (owners b t)"
  by (simp add: owners_def isObject_def distinct_map_filter)

lemma one_owner:
  assumes "isObject (columns b)"
  shows "length (owners b t) = 1
           \<longleftrightarrow> (\<exists>k. listed (columns b) k t \<and> (\<forall>k'. listed (columns b) k' t \<longrightarrow> k' = k))"
proof -
  have "length (owners b t) = card (set (owners b t))"
    using distinct_owners [OF assms] by (simp add: distinct_card)
  then have "length (owners b t) = 1 \<longleftrightarrow> (\<exists>k. set (owners b t) = {k})"
    by (simp add: card_1_singleton_iff)
  also have "\<dots> \<longleftrightarrow> (\<exists>k. {k. listed (columns b) k t} = {k})"
    by (simp only: set_owners [OF assms])
  also have "\<dots> \<longleftrightarrow> (\<exists>k. listed (columns b) k t \<and> (\<forall>k'. listed (columns b) k' t \<longrightarrow> k' = k))"
    by (rule ex_cong1) blast
  finally show ?thesis .
qed

lemma tasksOwnedOnce_ownedOnce:
  assumes "isObject (columns b)"
  shows "tasksOwnedOnce b = ownedOnce (listed (columns b)) (fst ` set (tasks b))"
proof -
  have "\<And>t. (length (owners b t) = Suc 0)
           = (\<exists>k. listed (columns b) k t \<and> (\<forall>k'. listed (columns b) k' t \<longrightarrow> k' = k))"
    using one_owner [OF assms] by simp
  then show ?thesis
    by (simp add: tasksOwnedOnce_def list_all_iff ownedOnce_def)
qed

lemma no_owner: "owners b t = [] \<Longrightarrow> \<not> listed (columns b) k t"
proof
  assume e: "owners b t = []" and l: "listed (columns b) k t"
  from l obtain c where "map_of (columns b) k = Some c" "t \<in> set (taskIds c)"
    by (auto simp: listed_def split: option.splits)
  then have "(k, c) \<in> set (filter (\<lambda>(k, c). t \<in> set (taskIds c)) (columns b))"
    by (auto dest: map_of_SomeD)
  with e show False by (simp add: owners_def)
qed

lemma storeInv_fields:
  "storeInv b \<longleftrightarrow>
     isObject (tasks b) \<and> isObject (columns b) \<and> distinct (columnOrder b)
     \<and> set (columnOrder b) = fst ` set (columns b)
     \<and> ownedOnce (listed (columns b)) (fst ` set (tasks b))"
  by (auto simp: storeInv_def boardInvariant_def columnOrderOk_def tasksOwnedOnce_ownedOnce)

subsection \<open>Exactly one owner, under changes of the listing\<close>

lemma ownedOnce_add:
  assumes "ownedOnce L T" and "\<And>k'. \<not> L k' t"
    and "\<And>k' x. L' k' x \<longleftrightarrow> L k' x \<or> (k' = k \<and> x = t)"
  shows "ownedOnce L' (insert t T)"
  unfolding ownedOnce_def
proof
  fix x
  assume "x \<in> insert t T"
  show "\<exists>j. L' j x \<and> (\<forall>k'. L' k' x \<longrightarrow> k' = j)"
  proof (cases "x = t")
    case True
    with assms(2,3) have "L' k x \<and> (\<forall>k'. L' k' x \<longrightarrow> k' = k)" by blast
    then show ?thesis by blast
  next
    case False
    with \<open>x \<in> insert t T\<close> assms(1) obtain j where "L j x" "\<forall>k'. L k' x \<longrightarrow> k' = j"
      unfolding ownedOnce_def by blast
    with False assms(3) have "L' j x \<and> (\<forall>k'. L' k' x \<longrightarrow> k' = j)" by blast
    then show ?thesis by blast
  qed
qed

lemma ownedOnce_remove:
  assumes "ownedOnce L T"
    and "\<And>k' x. L' k' x \<longleftrightarrow> L k' x \<and> \<not> (k' = k \<and> x = t)"
  shows "ownedOnce L' (T - {t})"
  unfolding ownedOnce_def
proof
  fix x
  assume "x \<in> T - {t}"
  then have x: "x \<in> T" "x \<noteq> t" by simp_all
  with assms(1) obtain j where "L j x" "\<forall>k'. L k' x \<longrightarrow> k' = j"
    unfolding ownedOnce_def by blast
  with x(2) assms(2) have "L' j x \<and> (\<forall>k'. L' k' x \<longrightarrow> k' = j)" by blast
  then show "\<exists>j. L' j x \<and> (\<forall>k'. L' k' x \<longrightarrow> k' = j)" by blast
qed

lemma ownedOnce_move:
  assumes "ownedOnce L T" and "L k1 t" and "k1 \<noteq> k2"
    and "\<And>k' x. L' k' x \<longleftrightarrow> (L k' x \<and> \<not> (k' = k1 \<and> x = t)) \<or> (k' = k2 \<and> x = t)"
  shows "ownedOnce L' T"
  unfolding ownedOnce_def
proof
  fix x
  assume xT: "x \<in> T"
  with assms(1) obtain j where j: "L j x" "\<forall>k'. L k' x \<longrightarrow> k' = j"
    unfolding ownedOnce_def by blast
  show "\<exists>j. L' j x \<and> (\<forall>k'. L' k' x \<longrightarrow> k' = j)"
  proof (cases "x = t")
    case True
    with j assms(2) have only: "\<forall>k'. L k' t \<longrightarrow> k' = k1" by blast
    with True assms(4) have "L' k2 x \<and> (\<forall>k'. L' k' x \<longrightarrow> k' = k2)" by blast
    then show ?thesis by blast
  next
    case False
    with j assms(4) have "L' j x \<and> (\<forall>k'. L' k' x \<longrightarrow> k' = j)" by blast
    then show ?thesis by blast
  qed
qed

lemma ownedOnce_same:
  assumes "ownedOnce L T" and "\<And>k' x. L' k' x \<longleftrightarrow> L k' x"
  shows "ownedOnce L' T"
  using assms unfolding ownedOnce_def by simp

lemma ownedOnce_drop:
  assumes "ownedOnce L T" and "\<And>k' x. L' k' x \<longleftrightarrow> L k' x \<and> k' \<noteq> k"
    and "\<And>x. x \<in> T' \<Longrightarrow> x \<in> T \<and> \<not> L k x"
  shows "ownedOnce L' T'"
  unfolding ownedOnce_def
proof
  fix x
  assume "x \<in> T'"
  with assms(3) have x: "x \<in> T" "\<not> L k x" by blast+
  with assms(1) obtain j where j: "L j x" "\<forall>k'. L k' x \<longrightarrow> k' = j"
    unfolding ownedOnce_def by blast
  with x(2) have "j \<noteq> k" by blast
  with j assms(2) have "L' j x \<and> (\<forall>k'. L' k' x \<longrightarrow> k' = j)" by blast
  then show "\<exists>j. L' j x \<and> (\<forall>k'. L' k' x \<longrightarrow> k' = j)" by blast
qed

lemma key_of_entry: "map_of al k = Some v \<Longrightarrow> insert k (fst ` set al) = fst ` set al"
  by (metis insert_absorb map_of_eq_None_iff option.distinct(1))

lemma taskIds_ColumnType_update:
  assumes "ColumnType_update e c updates = Inr c'"
  shows "taskIds c' = patched (p_taskIds updates) (taskIds c)"
  using assms by (auto simp: ColumnType_update_def Let_def split: if_splits)

lemma findSourceColumn_entry:
  "isObject cols \<Longrightarrow> findSourceColumn t cols = Some k \<Longrightarrow>
   \<exists>c. map_of cols k = Some c \<and> t \<in> set (taskIds c)"
proof (induction cols)
  case Nil
  then show ?case by simp
next
  case (Cons p cols)
  obtain k0 c0 where p: "p = (k0, c0)" by (cases p)
  show ?case
  proof (cases "t \<in> set (taskIds c0)")
    case True
    with Cons.prems p show ?thesis by simp
  next
    case False
    with Cons.prems p have f: "findSourceColumn t cols = Some k" by simp
    from Cons.prems(1) p have obj: "isObject cols" and k0: "k0 \<notin> fst ` set cols"
      by (simp_all add: isObject_def)
    from Cons.IH [OF obj f] obtain c where c: "map_of cols k = Some c" "t \<in> set (taskIds c)"
      by blast
    from c(1) have "k \<in> fst ` set cols" by (metis map_of_eq_None_iff option.distinct(1))
    with k0 have "k \<noteq> k0" by blast
    with c p show ?thesis by simp
  qed
qed


subsection \<open>One lemma for each operation\<close>

lemma objGet_Own: "(objGet obj k = Own v) = (map_of obj k = Some v)"
  by (simp add: objGet_def split: option.splits)

lemma objGet_not_own: "map_of obj k = None \<Longrightarrow> objGet obj k \<noteq> Own v"
  by (simp add: objGet_def)

lemma objGet_key:
  "k \<in> fst ` set obj \<Longrightarrow> \<exists>v. objGet obj k = Own v \<and> map_of obj k = Some v"
proof -
  assume "k \<in> fst ` set obj"
  then obtain v where "map_of obj k = Some v"
    by (metis map_of_eq_None_iff not_Some_eq)
  then show ?thesis by (simp add: objGet_def)
qed

lemma storeInv_updateBoardData_same:
  assumes "storeInv b" and "tasks b' = tasks b" and "columns b' = columns b"
    and "columnOrder b' = columnOrder b"
  shows "storeInv b'"
  using assms by (simp add: storeInv_fields)

lemma storeInv_addTask:
  assumes inv: "storeInv b" and op: "addTask e columnId taskData b = Inr (taskId, b')"
    and fresh: "taskId \<notin> set (map fst (tasks b))" and unlisted: "owners b taskId = []"
  shows "storeInv b'"
proof -
  let ?task = "TaskFactory_createFromForm e (taskData\<lparr>f_id := generateTaskId e\<rparr>)"
  from op obtain column where col: "map_of (columns b) columnId = Some column"
    and tid: "taskId = generateTaskId e"
    and b': "b' = updateBoardData e
               (b\<lparr>tasks := AList.update taskId ?task (tasks b),
                  columns := AList.update columnId
                     (column\<lparr>taskIds := taskIds column @ [taskId], column_updatedAt := now e\<rparr>)
                     (columns b)\<rparr>)"
    by (auto simp: addTask_def Let_def objGet_Own split: if_splits lookup.splits)
  let ?c' = "column\<lparr>taskIds := taskIds column @ [taskId], column_updatedAt := now e\<rparr>"
  from inv have f: "isObject (tasks b)" "isObject (columns b)" "distinct (columnOrder b)"
    "set (columnOrder b) = fst ` set (columns b)"
    "ownedOnce (listed (columns b)) (fst ` set (tasks b))"
    by (simp_all add: storeInv_fields)
  have keys: "fst ` set (AList.update columnId ?c' (columns b)) = fst ` set (columns b)"
    by (simp only: keys_update key_of_entry [OF col])
  have own: "ownedOnce (listed (AList.update columnId ?c' (columns b)))
               (insert taskId (fst ` set (tasks b)))"
  proof (rule ownedOnce_add [OF f(5), where k = columnId])
    fix k'
    show "\<not> listed (columns b) k' taskId" by (rule no_owner [OF unlisted])
  next
    fix k' x
    show "listed (AList.update columnId ?c' (columns b)) k' x
            \<longleftrightarrow> listed (columns b) k' x \<or> (k' = columnId \<and> x = taskId)"
      by (auto simp: listed_update listed_entry [OF col])
  qed
  show ?thesis
    unfolding b' storeInv_fields updateBoardData_def
    using f(1-4) own keys by (simp add: isObject_update keys_update)
qed

lemma storeInv_updateTask:
  assumes inv: "storeInv b" and op: "updateTask e taskId updates b = Inr b'"
    and key: "taskId \<in> set (map fst (tasks b))"
  shows "storeInv b'"
proof -
  from op obtain updatedTask where
    b': "b' = updateBoardData e (b\<lparr>tasks := AList.update taskId updatedTask (tasks b)\<rparr>)"
    by (auto simp: updateTask_def split: lookup.splits sum.splits)
  from key have "insert taskId (fst ` set (tasks b)) = fst ` set (tasks b)" by auto
  with inv show ?thesis
    unfolding b' storeInv_fields updateBoardData_def
    by (simp add: isObject_update keys_update)
qed

lemma storeInv_deleteTask:
  assumes inv: "storeInv b" and op: "deleteTask e confirmed taskId b = Inr (r, b')"
  shows "storeInv b'"
proof (cases confirmed)
  case False
  with op have "b' = b" by (simp add: deleteTask_def)
  with inv show ?thesis by simp
next
  case True
  with op obtain k c where col: "map_of (columns b) k = Some c"
    and b': "b' = updateBoardData e
               (b\<lparr>tasks := AList.delete taskId (tasks b),
                  columns := AList.update k
                     (c\<lparr>taskIds := filter (\<lambda>i. i \<noteq> taskId) (taskIds c), column_updatedAt := now e\<rparr>)
                     (columns b)\<rparr>)"
    by (auto simp: deleteTask_def split: option.splits if_splits)
  let ?c' = "c\<lparr>taskIds := filter (\<lambda>i. i \<noteq> taskId) (taskIds c), column_updatedAt := now e\<rparr>"
  from inv have f: "isObject (tasks b)" "isObject (columns b)" "distinct (columnOrder b)"
    "set (columnOrder b) = fst ` set (columns b)"
    "ownedOnce (listed (columns b)) (fst ` set (tasks b))"
    by (simp_all add: storeInv_fields)
  have keys: "fst ` set (AList.update k ?c' (columns b)) = fst ` set (columns b)"
    by (simp only: keys_update key_of_entry [OF col])
  have own: "ownedOnce (listed (AList.update k ?c' (columns b))) (fst ` set (tasks b) - {taskId})"
  proof (rule ownedOnce_remove [OF f(5), where k = k])
    fix k' x
    show "listed (AList.update k ?c' (columns b)) k' x
            \<longleftrightarrow> listed (columns b) k' x \<and> \<not> (k' = k \<and> x = taskId)"
      by (auto simp: listed_update listed_entry [OF col])
  qed
  show ?thesis
    unfolding b' storeInv_fields updateBoardData_def
    using f(1-4) own keys by (simp add: isObject_update isObject_delete keys_delete)
qed

lemma storeInv_moveTask:
  assumes inv: "storeInv b" and op: "moveTask e taskId targetColumnId b = Inr b'"
  shows "storeInv b'"
proof -
  from inv have f: "isObject (tasks b)" "isObject (columns b)" "distinct (columnOrder b)"
    "set (columnOrder b) = fst ` set (columns b)"
    "ownedOnce (listed (columns b)) (fst ` set (tasks b))"
    by (simp_all add: storeInv_fields)
  from op obtain k where src: "findSourceColumn taskId (columns b) = Some k"
    by (auto simp: moveTask_def split: option.splits)
  show ?thesis
  proof (cases "k = targetColumnId")
    case True
    with op src have "b' = updateBoardData e b"
      by (auto simp: moveTask_def split: if_splits)
    with inv show ?thesis by (simp add: storeInv_fields updateBoardData_def)
  next
    case False
    with op src obtain sc tc where sc: "map_of (columns b) k = Some sc"
      and tc: "map_of (columns b) targetColumnId = Some tc"
      and b': "b' = updateBoardData e
                 (b\<lparr>columns := AList.update targetColumnId
                      (tc\<lparr>taskIds := taskIds tc @ [taskId], column_updatedAt := now e\<rparr>)
                      (AList.update k
                         (sc\<lparr>taskIds := filter (\<lambda>i. i \<noteq> taskId) (taskIds sc),
                             column_updatedAt := now e\<rparr>)
                         (columns b))\<rparr>)"
      by (auto simp: moveTask_def objGet_Own split: if_splits option.splits lookup.splits)
    let ?tc' = "tc\<lparr>taskIds := taskIds tc @ [taskId], column_updatedAt := now e\<rparr>"
    let ?sc' = "sc\<lparr>taskIds := filter (\<lambda>i. i \<noteq> taskId) (taskIds sc), column_updatedAt := now e\<rparr>"
    let ?cols = "AList.update targetColumnId ?tc' (AList.update k ?sc' (columns b))"
    from findSourceColumn_entry [OF f(2) src] sc have here: "taskId \<in> set (taskIds sc)"
      by auto
    then have l: "listed (columns b) k taskId" by (simp add: listed_entry [OF sc])
    have keys: "fst ` set ?cols = fst ` set (columns b)"
      by (simp only: keys_update key_of_entry [OF sc] key_of_entry [OF tc])
    have own: "ownedOnce (listed ?cols) (fst ` set (tasks b))"
    proof (rule ownedOnce_move [OF f(5) l False])
      fix k' x
      show "listed ?cols k' x
              \<longleftrightarrow> (listed (columns b) k' x \<and> \<not> (k' = k \<and> x = taskId))
                  \<or> (k' = targetColumnId \<and> x = taskId)"
        using False by (auto simp: listed_update listed_entry [OF sc] listed_entry [OF tc])
    qed
    show ?thesis
      unfolding b' storeInv_fields updateBoardData_def
      using f(1-4) own keys by (simp add: isObject_update)
  qed
qed

lemma taskIds_createFromForm: "taskIds (ColumnFactory_createFromForm e columnData) = []"
  by (simp add: ColumnFactory_createFromForm_def)

lemma storeInv_addColumn:
  assumes inv: "storeInv b" and op: "addColumn e columnData b = Inr (columnId, b')"
    and fresh: "columnId \<notin> set (map fst (columns b))"
  shows "storeInv b'"
proof -
  let ?c = "ColumnFactory_createFromForm e
              (columnData\<lparr>cf_id := generateColumnId e,
                          cf_order := int (length (columnOrder b))\<rparr>)"
  from op have b': "b' = updateBoardData e
                      (b\<lparr>columns := AList.update columnId ?c (columns b),
                         columnOrder := columnOrder b @ [columnId]\<rparr>)"
    by (auto simp: addColumn_def Let_def split: if_splits)
  from inv have f: "isObject (tasks b)" "isObject (columns b)" "distinct (columnOrder b)"
    "set (columnOrder b) = fst ` set (columns b)"
    "ownedOnce (listed (columns b)) (fst ` set (tasks b))"
    by (simp_all add: storeInv_fields)
  from fresh have none: "map_of (columns b) columnId = None"
    by (simp add: map_of_eq_None_iff)
  have own: "ownedOnce (listed (AList.update columnId ?c (columns b))) (fst ` set (tasks b))"
  proof (rule ownedOnce_same [OF f(5)])
    fix k' x
    show "listed (AList.update columnId ?c (columns b)) k' x \<longleftrightarrow> listed (columns b) k' x"
      by (simp add: listed_update taskIds_createFromForm listed_no_entry [OF none])
  qed
  from fresh f(4) have "columnId \<notin> set (columnOrder b)" by simp
  then show ?thesis
    unfolding b' storeInv_fields updateBoardData_def
    using f(1-4) own by (simp add: isObject_update keys_update)
qed

lemma storeInv_updateColumn:
  assumes inv: "storeInv b" and op: "updateColumn e columnId updates b = Inr b'"
    and col: "map_of (columns b) columnId = Some c"
    and patch: "p_taskIds updates = None \<or> p_taskIds updates = Some (taskIds c)"
  shows "storeInv b'"
proof -
  from col have get: "objGet (columns b) columnId = Own c" by (simp add: objGet_Own)
  with op obtain c' where upd: "ColumnType_update e c updates = Inr c'"
    and b': "b' = updateBoardData e (b\<lparr>columns := AList.update columnId c' (columns b)\<rparr>)"
    by (auto simp: updateColumn_def ColumnType_fromObject_def split: sum.splits)
  from taskIds_ColumnType_update [OF upd] patch have same: "taskIds c' = taskIds c"
    by (auto simp: patched_def)
  from inv have f: "isObject (tasks b)" "isObject (columns b)" "distinct (columnOrder b)"
    "set (columnOrder b) = fst ` set (columns b)"
    "ownedOnce (listed (columns b)) (fst ` set (tasks b))"
    by (simp_all add: storeInv_fields)
  have keys: "fst ` set (AList.update columnId c' (columns b)) = fst ` set (columns b)"
    by (simp only: keys_update key_of_entry [OF col])
  have own: "ownedOnce (listed (AList.update columnId c' (columns b))) (fst ` set (tasks b))"
  proof (rule ownedOnce_same [OF f(5)])
    fix k' x
    show "listed (AList.update columnId c' (columns b)) k' x \<longleftrightarrow> listed (columns b) k' x"
      by (simp add: listed_update same listed_entry [OF col])
  qed
  show ?thesis
    unfolding b' storeInv_fields updateBoardData_def
    using f(1-4) own keys by (simp add: isObject_update)
qed

lemma storeInv_deleteColumn:
  assumes inv: "storeInv b" and op: "deleteColumn e confirmed columnId boardData b = Inr (r, b')"
    and current: "objGet (columns boardData) columnId = objGet (columns b) columnId"
  shows "storeInv b'"
proof (cases confirmed)
  case False
  with op have "b' = b" by (auto simp: deleteColumn_def split: lookup.splits)
  with inv show ?thesis by simp
next
  case True
  let ?ids = "case objGet (columns b) columnId of Own c \<Rightarrow> taskIds c | _ \<Rightarrow> []"
  from op True current have
    b': "b' = updateBoardData e
               (b\<lparr>tasks := deleteAll ?ids (tasks b),
                  columns := AList.delete columnId (columns b),
                  columnOrder := filter (\<lambda>i. i \<noteq> columnId) (columnOrder b)\<rparr>)"
    by (auto simp: deleteColumn_def split: lookup.splits)
  from inv have f: "isObject (tasks b)" "isObject (columns b)" "distinct (columnOrder b)"
    "set (columnOrder b) = fst ` set (columns b)"
    "ownedOnce (listed (columns b)) (fst ` set (tasks b))"
    by (simp_all add: storeInv_fields)
  have gone: "\<not> listed (columns b) columnId x" if "x \<notin> set ?ids" for x
    using that by (auto simp: listed_def objGet_def split: option.splits)
  have own: "ownedOnce (listed (AList.delete columnId (columns b)))
               (fst ` set (tasks b) - set ?ids)"
  proof (rule ownedOnce_drop [OF f(5), where k = columnId])
    fix k' x
    show "listed (AList.delete columnId (columns b)) k' x
            \<longleftrightarrow> listed (columns b) k' x \<and> k' \<noteq> columnId"
      by (auto simp: listed_delete)
  next
    fix x
    assume "x \<in> fst ` set (tasks b) - set ?ids"
    then show "x \<in> fst ` set (tasks b) \<and> \<not> listed (columns b) columnId x"
      using gone by simp
  qed
  have order: "set (filter (\<lambda>i. i \<noteq> columnId) (columnOrder b))
                 = fst ` set (columns b) - {columnId}"
    using f(4) by auto
  show ?thesis
    unfolding b' storeInv_fields updateBoardData_def
    using f(1-3) own order
    by (simp add: isObject_deleteAll isObject_delete keys_deleteAll keys_delete)
qed

lemma storeInv_reorderColumns:
  assumes "storeInv b" and "reorderColumns e newColumnOrder b = Inr b'"
    and "set newColumnOrder = set (columnOrder b)"
    and "length newColumnOrder = length (columnOrder b)"
  shows "storeInv b'"
proof -
  from assms(2) have b': "b' = b\<lparr>columnOrder := newColumnOrder, lastModified := now e\<rparr>"
    by (simp add: reorderColumns_def updateBoardData_def)
  from assms(1) have d: "distinct (columnOrder b)" by (simp add: storeInv_fields)
  then have "card (set newColumnOrder) = length newColumnOrder"
    using assms(3,4) by (simp add: distinct_card)
  then have "distinct newColumnOrder" by (rule card_distinct)
  with assms(1,3) show ?thesis
    unfolding b' storeInv_fields by simp
qed

lemma storeInv_emptyBoard: "storeInv (emptyBoard stamp)"
  by (simp add: storeInv_fields emptyBoard_def isObject_def ownedOnce_def)

lemma storeInv_clearBoard:
  assumes "storeInv b"
  shows "storeInv (clearBoard e confirmed b)"
proof (cases confirmed)
  case True
  then show ?thesis
    by (simp add: clearBoard_def updateBoardData_def storeInv_fields emptyBoard_def
        isObject_def ownedOnce_def)
next
  case False
  with assms show ?thesis by (simp add: clearBoard_def)
qed

subsection \<open>An imported snapshot\<close>

lemma js_of_task_inj: "js_of_task t = js_of_task t' \<Longrightarrow> t = t'"
  by (cases t, cases t') (simp add: js_of_task_def)

lemma map_JStr_inj: "map JStr xs = map JStr ys \<Longrightarrow> xs = ys"
  by (simp add: inj_map_eq_map inj_on_def)

lemma js_of_column_inj: "js_of_column c = js_of_column c' \<Longrightarrow> c = c'"
  by (cases c, cases c') (simp add: js_of_column_def map_JStr_inj)

lemma map_entries_inj:
  assumes "\<And>v v'. f v = f v' \<Longrightarrow> v = v'"
  shows "map (\<lambda>(k, v). (k, f v)) xs = map (\<lambda>(k, v). (k, f v)) ys \<Longrightarrow> xs = ys"
proof (induction xs arbitrary: ys)
  case Nil
  then show ?case by simp
next
  case (Cons x xs)
  then obtain y ys' where ys: "ys = y # ys'" by (cases ys) auto
  with Cons.prems have "fst x = fst y" "f (snd x) = f (snd y)"
    by (auto simp: case_prod_beta)
  with assms have "x = y" by (simp add: prod_eq_iff)
  with Cons ys show ?case by simp
qed

lemma js_of_board_inj: "js_of_board b = js_of_board b' \<Longrightarrow> b = b'"
proof -
  assume "js_of_board b = js_of_board b'"
  then have "map (\<lambda>(k, t). (k, js_of_task t)) (tasks b) = map (\<lambda>(k, t). (k, js_of_task t)) (tasks b')"
    and "map (\<lambda>(k, c). (k, js_of_column c)) (columns b) = map (\<lambda>(k, c). (k, js_of_column c)) (columns b')"
    and "map JStr (columnOrder b) = map JStr (columnOrder b')"
    and "lastModified b = lastModified b'"
    by (simp_all add: js_of_board_def)
  then have "tasks b = tasks b'" "columns b = columns b'" "columnOrder b = columnOrder b'"
    "lastModified b = lastModified b'"
    using map_entries_inj [of js_of_task, OF js_of_task_inj]
      map_entries_inj [of js_of_column, OF js_of_column_inj] map_JStr_inj
    by blast+
  then show "b = b'" by simp
qed


lemma storeInv_importBoardData:
  assumes "importBoardData e (js_of_board d) = Inr (js_of_board b')"
    and "isObject (tasks d)" and "isObject (columns d)" and "boardInvariant d"
  shows "storeInv b'"
proof -
  from assms(1) have "js_of_board (d\<lparr>lastModified := now e\<rparr>) = js_of_board b'"
    by (simp add: importBoardData_js_of_board)
  then have b': "b' = d\<lparr>lastModified := now e\<rparr>" by (simp add: js_of_board_inj)
  from assms(2-4) have "storeInv d" by (simp add: storeInv_def)
  then show ?thesis unfolding b' by (simp add: storeInv_fields)
qed

subsection \<open>Runs of the store\<close>

lemma storeInv_guardedStep: "guardedStep b b' \<Longrightarrow> storeInv b \<Longrightarrow> storeInv b'"
proof (induction rule: guardedStep.induct)
  case (guarded_addTask e columnId taskData b taskId b')
  then show ?case using storeInv_addTask by blast
next
  case (guarded_updateTask e taskId taskUpdates b b')
  then show ?case using storeInv_updateTask by blast
next
  case (guarded_deleteTask e confirmed taskId b r b')
  then show ?case using storeInv_deleteTask by blast
next
  case (guarded_moveTask e taskId targetColumnId b b')
  then show ?case using storeInv_moveTask by blast
next
  case (guarded_addColumn e columnData b columnId b')
  then show ?case using storeInv_addColumn by blast
next
  case (guarded_updateColumn e columnId columnUpdates b b' c)
  then show ?case using storeInv_updateColumn by blast
next
  case (guarded_deleteColumn e confirmed columnId boardData b r b')
  then show ?case using storeInv_deleteColumn by blast
next
  case (guarded_reorderColumns e newColumnOrder b b')
  then show ?case using storeInv_reorderColumns by blast
next
  case (guarded_clearBoard e confirmed b b')
  then show ?case using storeInv_clearBoard by blast
next
  case (guarded_importBoardData e d b' b)
  then show ?case using storeInv_importBoardData by blast
qed

lemma storeInv_guardedReachable: "guardedReachable b \<Longrightarrow> storeInv b"
  by (induction rule: guardedReachable.induct)
     (simp_all add: storeInv_emptyBoard storeInv_guardedStep)

lemma reorderColumns_empty_board1:
  "reorderColumns env2 [] board1
     = Inr (board1\<lparr>columnOrder := [], lastModified := ''2026-11-03T12:01:00.000Z''\<rparr>)"
  by (simp add: reorderColumns_def updateBoardData_def env2_def)

text \<open>
  C1, as claimed: every board reachable from the empty board by the operations of the
  store has a duplicate-free \<open>columnOrder\<close> equal as a set to the keys of \<open>columns\<close>, and
  every stored task in exactly one column. \<open>reorderColumns\<close> stores any list: adding a
  column to the empty board and then reordering with the empty list reaches a board whose
  \<open>columnOrder\<close> is empty while \<open>columns\<close> has a key.
\<close>

theorem reachable_board_without_invariant:
  "reachable (board1\<lparr>columnOrder := [], lastModified := ''2026-11-03T12:01:00.000Z''\<rparr>)
   \<and> \<not> boardInvariant (board1\<lparr>columnOrder := [], lastModified := ''2026-11-03T12:01:00.000Z''\<rparr>)"
proof -
  have "reachable board0"
    unfolding board0_def by (rule reachable_empty)
  moreover have "step board0 board1"
    using addColumn_board0 by (rule step_addColumn)
  ultimately have "reachable board1" by (rule reachable_step)
  moreover have "step board1 (board1\<lparr>columnOrder := [], lastModified := ''2026-11-03T12:01:00.000Z''\<rparr>)"
    using reorderColumns_empty_board1 by (rule step_reorderColumns)
  ultimately have "reachable (board1\<lparr>columnOrder := [], lastModified := ''2026-11-03T12:01:00.000Z''\<rparr>)"
    by (rule reachable_step)
  moreover have "\<not> boardInvariant (board1\<lparr>columnOrder := [], lastModified := ''2026-11-03T12:01:00.000Z''\<rparr>)"
    by (simp add: boardInvariant_def columnOrderOk_def board1_def)
  ultimately show ?thesis by simp
qed


text \<open>
  C1, amended: every board reachable from the empty board by the following calls has a
  duplicate-free \<open>columnOrder\<close> equal as a set to the keys of \<open>columns\<close>, and every task id
  of \<open>tasks\<close> is listed by exactly one column: \<open>addTask\<close> whose generated id is neither a
  key of \<open>tasks\<close> nor listed by any column; \<open>addColumn\<close> whose generated id is not a key of
  \<open>columns\<close>; \<open>updateTask\<close> on a key of \<open>tasks\<close>; \<open>updateColumn\<close> on a key of \<open>columns\<close>
  with a patch that leaves \<open>taskIds\<close> as it is; \<open>deleteColumn\<close> called from a render whose
  snapshot has under the column id what the current snapshot has; \<open>reorderColumns\<close> with
  a list of the same length and the same set of ids as \<open>columnOrder\<close>; \<open>importSnapshot\<close>
  of a snapshot that satisfies these two invariants; \<open>deleteTask\<close>, \<open>moveTask\<close> and
  \<open>clear\<close> with any arguments.
\<close>

theorem guarded_runs_keep_invariant:
  "guardedReachable b \<Longrightarrow> boardInvariant b"
proof -
  assume "guardedReachable b"
  then have "storeInv b" by (rule storeInv_guardedReachable)
  then show "boardInvariant b" by (simp add: storeInv_def)
qed

theorem guarded_runs_keep_invariant_witness:
  "guardedReachable board2 \<and> boardInvariant board2"
proof -
  have "guardedReachable board0"
    unfolding board0_def by (rule guarded_empty)
  moreover have "guardedStep board0 board1"
    using addColumn_board0 by (rule guarded_addColumn) (simp add: board0_def emptyBoard_def)
  ultimately have "guardedReachable board1" by (rule guarded_step)
  moreover have "guardedStep board1 board2"
    using addTask_board1
    by (rule guarded_addTask) (simp_all add: board1_def owners_def todoColumn_def)
  ultimately have r: "guardedReachable board2" by (rule guarded_step)
  from r guarded_runs_keep_invariant [OF r] show ?thesis by simp
qed

subsection \<open>What the guards exclude\<close>

text \<open>
  Each restriction of the amended C1 excludes calls that the store accepts and that leave
  the invariant: an update under a name that every object inherits, a column update that
  sets \<open>taskIds\<close>, a \<open>deleteColumn\<close> from a render that is out of date, an import of a
  snapshot that does not satisfy the invariant, and a generated id that is already in use.
\<close>

lemma updateTask_inherited_name_stores_orphan:
  "updateTask env3 ''constructor''
       \<lparr>p_task_id = None, p_task_title = Some ''X'', p_description = None, p_priority = None,
        p_assignee = None, p_dueDate = None, p_task_createdAt = None\<rparr> board0
     = Inr \<lparr>tasks = [(''constructor'',
                      \<lparr>task_id = [], task_title = ''X'', description = [], priority = ''medium'',
                       assignee = [], dueDate = [],
                       task_createdAt = ''2026-11-03T12:02:00.000Z'',
                       task_updatedAt = ''2026-11-03T12:02:00.000Z''\<rparr>)],
            columns = [], columnOrder = [], lastModified = ''2026-11-03T12:02:00.000Z''\<rparr>
   \<and> \<not> boardInvariant
         \<lparr>tasks = [(''constructor'',
                      \<lparr>task_id = [], task_title = ''X'', description = [], priority = ''medium'',
                       assignee = [], dueDate = [],
                       task_createdAt = ''2026-11-03T12:02:00.000Z'',
                       task_updatedAt = ''2026-11-03T12:02:00.000Z''\<rparr>)],
            columns = [], columnOrder = [], lastModified = ''2026-11-03T12:02:00.000Z''\<rparr>"
  by (simp add: updateTask_def objGet_def inheritedNames_def TaskType_fromObject_def
      TaskType_update_def patched_def validate_defs updateBoardData_def board0_def
      emptyBoard_def env3_def Let_def boardInvariant_def tasksOwnedOnce_def owners_def)

lemma updateColumn_inherited_name_stores_unordered_column:
  "updateColumn env3 ''constructor'' (no_patch\<lparr>p_column_title := Some ''X''\<rparr>) board0
     = Inr \<lparr>tasks = [],
            columns = [(''constructor'',
                        \<lparr>column_id = [], column_title = ''X'', color = ''bg-gray-100'',
                         taskIds = [], column_createdAt = ''2026-11-03T12:02:00.000Z'',
                         column_updatedAt = ''2026-11-03T12:02:00.000Z'', order = 0\<rparr>)],
            columnOrder = [], lastModified = ''2026-11-03T12:02:00.000Z''\<rparr>
   \<and> \<not> boardInvariant
         \<lparr>tasks = [],
            columns = [(''constructor'',
                        \<lparr>column_id = [], column_title = ''X'', color = ''bg-gray-100'',
                         taskIds = [], column_createdAt = ''2026-11-03T12:02:00.000Z'',
                         column_updatedAt = ''2026-11-03T12:02:00.000Z'', order = 0\<rparr>)],
            columnOrder = [], lastModified = ''2026-11-03T12:02:00.000Z''\<rparr>"
  by (simp add: updateColumn_def objGet_def inheritedNames_def ColumnType_fromObject_def
      ColumnType_update_def patched_def no_patch_def validate_defs updateBoardData_def
      board0_def emptyBoard_def env3_def Let_def boardInvariant_def columnOrderOk_def)

lemma updateColumn_taskIds_orphans_task:
  "updateColumn env3 ''column-id-mw0mydc0-k3j9x2m1q'' (no_patch\<lparr>p_taskIds := Some []\<rparr>) board2
     = Inr (board2\<lparr>columns := [(''column-id-mw0mydc0-k3j9x2m1q'',
                todoColumn\<lparr>taskIds := [], column_updatedAt := ''2026-11-03T12:02:00.000Z''\<rparr>)],
              lastModified := ''2026-11-03T12:02:00.000Z''\<rparr>)
   \<and> boardInvariant board2
   \<and> \<not> boardInvariant (board2\<lparr>columns := [(''column-id-mw0mydc0-k3j9x2m1q'',
                todoColumn\<lparr>taskIds := [], column_updatedAt := ''2026-11-03T12:02:00.000Z''\<rparr>)],
              lastModified := ''2026-11-03T12:02:00.000Z''\<rparr>)"
proof -
  let ?b = "board2\<lparr>columns := [(''column-id-mw0mydc0-k3j9x2m1q'',
                todoColumn\<lparr>taskIds := [], column_updatedAt := ''2026-11-03T12:02:00.000Z''\<rparr>)],
              lastModified := ''2026-11-03T12:02:00.000Z''\<rparr>"
  have "updateColumn env3 ''column-id-mw0mydc0-k3j9x2m1q'' (no_patch\<lparr>p_taskIds := Some []\<rparr>) board2
             = Inr ?b"
    by (simp add: updateColumn_def objGet_def ColumnType_fromObject_def ColumnType_update_def
        validate_defs updateBoardData_def no_patch_def patched_def board2_def todoColumn_def
        env3_def Let_def)
  moreover have "boardInvariant board2"
    by (simp add: boardInvariant_def columnOrderOk_def tasksOwnedOnce_def owners_def board2_def)
  moreover have "\<not> boardInvariant ?b"
    by (simp add: boardInvariant_def columnOrderOk_def tasksOwnedOnce_def owners_def board2_def)
  ultimately show ?thesis by simp
qed

text \<open>
  \<open>deleteColumn\<close> made in the render of \<open>board1\<close>, where the column is empty, and run on
  \<open>board2\<close>, where it holds a task: the column goes and the task stays.
\<close>

lemma deleteColumn_stale_render_orphans_task:
  "deleteColumn env3 True ''column-id-mw0mydc0-k3j9x2m1q'' board1 board2
     = Inr (True, board2\<lparr>columns := [], columnOrder := [],
                         lastModified := ''2026-11-03T12:02:00.000Z''\<rparr>)
   \<and> boardInvariant board2
   \<and> \<not> boardInvariant (board2\<lparr>columns := [], columnOrder := [],
                                lastModified := ''2026-11-03T12:02:00.000Z''\<rparr>)"
proof -
  have "deleteColumn env3 True ''column-id-mw0mydc0-k3j9x2m1q'' board1 board2
          = Inr (True, board2\<lparr>columns := [], columnOrder := [],
                              lastModified := ''2026-11-03T12:02:00.000Z''\<rparr>)"
    by (simp add: deleteColumn_def objGet_def updateBoardData_def board1_def board2_def
        todoColumn_def env3_def)
  moreover have "boardInvariant board2"
    by (simp add: boardInvariant_def columnOrderOk_def tasksOwnedOnce_def owners_def board2_def)
  moreover have "\<not> boardInvariant (board2\<lparr>columns := [], columnOrder := [],
                                      lastModified := ''2026-11-03T12:02:00.000Z''\<rparr>)"
    by (simp add: boardInvariant_def columnOrderOk_def tasksOwnedOnce_def owners_def board2_def)
  ultimately show ?thesis by simp
qed

lemma importBoardData_stores_broken_snapshot:
  "step board0 (board1\<lparr>columnOrder := [], lastModified := ''2026-11-03T12:02:00.000Z''\<rparr>)
   \<and> \<not> boardInvariant (board1\<lparr>columnOrder := [], lastModified := ''2026-11-03T12:02:00.000Z''\<rparr>)"
proof -
  have "importBoardData env3 (js_of_board (board1\<lparr>columnOrder := []\<rparr>))
          = Inr (js_of_board (board1\<lparr>columnOrder := [], lastModified := ''2026-11-03T12:02:00.000Z''\<rparr>))"
    by (simp add: importBoardData_js_of_board env3_def)
  then have "step board0 (board1\<lparr>columnOrder := [], lastModified := ''2026-11-03T12:02:00.000Z''\<rparr>)"
    by (rule step_importBoardData)
  moreover have "\<not> boardInvariant (board1\<lparr>columnOrder := [], lastModified := ''2026-11-03T12:02:00.000Z''\<rparr>)"
    by (simp add: boardInvariant_def columnOrderOk_def board1_def)
  ultimately show ?thesis by simp
qed

lemma addColumn_same_id_twice:
  "addColumn env1 todoForm board2
     = Inr (''column-id-mw0mydc0-k3j9x2m1q'',
            board2\<lparr>columns := [(''column-id-mw0mydc0-k3j9x2m1q'', todoColumn)],
              columnOrder := [''column-id-mw0mydc0-k3j9x2m1q'', ''column-id-mw0mydc0-k3j9x2m1q''],
              lastModified := ''2026-11-03T12:00:00.000Z''\<rparr>)
   \<and> ''column-id-mw0mydc0-k3j9x2m1q'' \<in> set (map fst (columns board2))
   \<and> \<not> boardInvariant
         (board2\<lparr>columns := [(''column-id-mw0mydc0-k3j9x2m1q'', todoColumn)],
              columnOrder := [''column-id-mw0mydc0-k3j9x2m1q'', ''column-id-mw0mydc0-k3j9x2m1q''],
              lastModified := ''2026-11-03T12:00:00.000Z''\<rparr>)"
proof -
  let ?b = "board2\<lparr>columns := [(''column-id-mw0mydc0-k3j9x2m1q'', todoColumn)],
              columnOrder := [''column-id-mw0mydc0-k3j9x2m1q'', ''column-id-mw0mydc0-k3j9x2m1q''],
              lastModified := ''2026-11-03T12:00:00.000Z''\<rparr>"
  have "addColumn env1 todoForm board2 = Inr (''column-id-mw0mydc0-k3j9x2m1q'', ?b)"
    by (simp add: addColumn_def sample_defs id_defs ColumnFactory_createFromForm_def
        validate_defs updateBoardData_def Let_def)
  moreover have "\<not> boardInvariant ?b"
    by (simp add: boardInvariant_def columnOrderOk_def)
  moreover have "''column-id-mw0mydc0-k3j9x2m1q'' \<in> set (map fst (columns board2))"
    by (simp add: board2_def)
  ultimately show ?thesis by simp
qed

text \<open>
  A task id that a column lists and \<open>tasks\<close> does not hold, generated again for a task of
  another column: the task is then listed by two columns.
\<close>

lemma addTask_listed_id_gets_two_owners:
  "boardInvariant (board3\<lparr>tasks := []\<rparr>)
   \<and> (\<exists>b'. addTask env2 ''column-id-mw0n0xxc-z1q8r5t3y'' specForm (board3\<lparr>tasks := []\<rparr>)
              = Inr (''task-id-mw0mznmo-p7c2v8d4w'', b')
          \<and> ''task-id-mw0mznmo-p7c2v8d4w'' \<notin> set (map fst (tasks (board3\<lparr>tasks := []\<rparr>)))
          \<and> owners b' ''task-id-mw0mznmo-p7c2v8d4w''
               = [''column-id-mw0mydc0-k3j9x2m1q'', ''column-id-mw0n0xxc-z1q8r5t3y'']
          \<and> \<not> boardInvariant b')"
  by (simp add: addTask_def sample_defs id_defs TaskFactory_createFromForm_def validate_defs
      updateBoardData_def objGet_def Let_def boardInvariant_def columnOrderOk_def
      tasksOwnedOnce_def owners_def)

end
